theory Spec2Isabelle
  imports Complex_Main "HOL-Library.Word"
begin

text \<open>
  The repository holds two browser scripts that fetch courses, search results and schedules
  from an HTTP API and show them as tables. The first script is \<^verbatim>\<open>frontend/app.js\<close>
  (\<^verbatim>\<open>render\<close>, \<^verbatim>\<open>loadAll\<close>, \<^verbatim>\<open>doSearch\<close>). The second script is the one with the
  helpers \<^verbatim>\<open>apiGet\<close> and \<^verbatim>\<open>apiPost\<close>, the renderers \<^verbatim>\<open>renderCourses\<close> and
  \<^verbatim>\<open>renderAssignments\<close>, and the click handlers of the three buttons. Line numbers
  refer to the second script unless the first is named.

  An \<^verbatim>\<open>async\<close> function is modelled as the sequence of its statements run to the end: a
  request is answered by the function \<open>net\<close>, the page is a record, and an uncaught
  exception is the \<open>Inl\<close> outcome. Interleavings of several handlers are not modelled.
\<close>

section \<open>JavaScript strings\<close>

text \<open>
  A JavaScript string is a sequence of UTF-16 code units. The literals of the two scripts
  are ASCII (written through \<open>u\<close>) or Korean (written as code units).
\<close>

type_synonym jsstring = "16 word list"

definition u :: "string \<Rightarrow> jsstring" where
  "u s = map (\<lambda>c. of_char c) s"

text \<open>
  \<^verbatim>\<open>String.prototype.trim\<close> removes WhiteSpace and LineTerminator code points from both ends
  (ECMA-262, 22.1.3.32): TAB, LF, VT, FF, CR, SP, NBSP, the Unicode space separators,
  LS, PS and the byte order mark.
\<close>

definition is_space :: "16 word \<Rightarrow> bool" where
  "is_space c \<longleftrightarrow>
     c \<in> set [0x09, 0x0A, 0x0B, 0x0C, 0x0D, 0x20, 0xA0, 0x1680,
               0x2000, 0x2001, 0x2002, 0x2003, 0x2004, 0x2005, 0x2006, 0x2007, 0x2008,
               0x2009, 0x200A, 0x2028, 0x2029, 0x202F, 0x205F, 0x3000, 0xFEFF]"

definition trim :: "jsstring \<Rightarrow> jsstring" where
  "trim s = rev (dropWhile is_space (rev (dropWhile is_space s)))"

text \<open>\<^verbatim>\<open>s.split(",")\<close>: the pieces between commas; the empty string gives one empty piece.\<close>

fun split_on :: "16 word \<Rightarrow> jsstring \<Rightarrow> jsstring list" where
  "split_on c [] = [[]]"
| "split_on c (x # xs) =
     (if x = c then [] # split_on c xs
      else (case split_on c xs of
              [] \<Rightarrow> [[x]]
            | y # ys \<Rightarrow> (x # y) # ys))"

text \<open>\<^verbatim>\<open>xs.join(sep)\<close> on strings.\<close>

fun join :: "jsstring \<Rightarrow> jsstring list \<Rightarrow> jsstring" where
  "join sep [] = []"
| "join sep [s] = s"
| "join sep (s # t # ss) = s @ sep @ join sep (t # ss)"

text \<open>The decimal numeral of a natural number: the property name of an array index.\<close>

fun dec :: "nat \<Rightarrow> jsstring" where
  "dec n = (if n < 10 then [0x30 + of_nat n] else dec (n div 10) @ [0x30 + of_nat (n mod 10)])"

declare dec.simps [simp del]

section \<open>JavaScript values\<close>

text \<open>
  Numbers are IEEE doubles: not a number, the two infinities, or a finite value, which is a
  rational (the two zeros are one value here; no operation of the scripts tells them apart).
\<close>

datatype jsnum = NaN | PosInf | NegInf | Fin rat

text \<open>
  The values the scripts handle are those \<^verbatim>\<open>JSON.parse\<close> returns, \<^verbatim>\<open>undefined\<close>, and the
  built-ins a property read reaches through \<^verbatim>\<open>Object.prototype\<close>. An object is the list of
  its own properties in the order \<^verbatim>\<open>Object.keys\<close> enumerates them.
\<close>

datatype builtin = ObjectPrototype | NativeFunction jsstring

datatype jsval =
    JUndefined
  | JNull
  | JBool bool
  | JNum jsnum
  | JStr jsstring
  | JArr "jsval list"
  | JObj "(jsstring \<times> jsval) list"
  | JBuiltin builtin

text \<open>
  Thrown values. \<open>Error m\<close> is \<^verbatim>\<open>new Error(m)\<close>. A \<open>TypeError\<close> is raised by a language
  operation of the model: a property read on \<^verbatim>\<open>null\<close> or \<^verbatim>\<open>undefined\<close>, \<^verbatim>\<open>Object.keys\<close> of
  one of them, a call of something that is not a function (named by the callee expression),
  a conversion of an object that yields no primitive. \<open>Raised m\<close> is an exception of the host
  or the engine (a rejected \<^verbatim>\<open>fetch\<close>, the SyntaxError of \<^verbatim>\<open>JSON.parse\<close>, a URIError) with
  its message.
\<close>

datatype fault =
    ReadOfNullish jsval jsstring
  | KeysOfNullish
  | NotAFunction jsstring
  | NotPrimitive

datatype exn = Error jsstring | TypeError fault | Raised jsstring

text \<open>
  What the scripts take from the browser. None of it is code of the repository, so it is a
  parameter of every definition that uses it.
\<close>

record platform =
  json_parse :: "jsstring \<Rightarrow> jsstring + jsval"
  json_stringify :: "jsval \<Rightarrow> jsstring"
  num_to_string :: "jsnum \<Rightarrow> jsstring"
  string_to_num :: "jsstring \<Rightarrow> jsnum"
  encodeURIComponent :: "jsstring \<Rightarrow> jsstring + jsstring"
  fault_message :: "fault \<Rightarrow> jsstring"
  function_to_string :: "jsstring \<Rightarrow> jsstring"
  exotic_get :: "jsval \<Rightarrow> jsstring \<Rightarrow> jsval"

text \<open>\<^verbatim>\<open>e.message\<close>\<close>

fun message :: "platform \<Rightarrow> exn \<Rightarrow> jsstring" where
  "message P (Error m) = m"
| "message P (TypeError f) = fault_message P f"
| "message P (Raised m) = m"

text \<open>Sequencing of computations that may throw.\<close>

definition bind :: "exn + 'a \<Rightarrow> ('a \<Rightarrow> exn + 'b) \<Rightarrow> exn + 'b" where
  "bind m f = (case m of Inl e \<Rightarrow> Inl e | Inr v \<Rightarrow> f v)"

text \<open>\<^verbatim>\<open>try { body } catch { handler }\<close>: whatever the body throws, the handler runs.\<close>

definition try_catch :: "exn + 'a \<Rightarrow> (exn \<Rightarrow> exn + 'a) \<Rightarrow> exn + 'a" where
  "try_catch body handler = (case body of Inl e \<Rightarrow> handler e | Inr v \<Rightarrow> Inr v)"

text \<open>ToBoolean, and the test of \<^verbatim>\<open>??\<close> and \<^verbatim>\<open>== null\<close>.\<close>

fun truthy :: "jsval \<Rightarrow> bool" where
  "truthy JUndefined = False"
| "truthy JNull = False"
| "truthy (JBool b) = b"
| "truthy (JNum NaN) = False"
| "truthy (JNum (Fin r)) = (r \<noteq> 0)"
| "truthy (JNum _) = True"
| "truthy (JStr s) = (s \<noteq> [])"
| "truthy _ = True"

fun nullish :: "jsval \<Rightarrow> bool" where
  "nullish JUndefined = True"
| "nullish JNull = True"
| "nullish _ = False"

text \<open>
  The properties every plain object inherits from \<^verbatim>\<open>Object.prototype\<close>
  (ECMA-262, 20.1.3 and B.2.2): eleven functions and the accessor \<^verbatim>\<open>__proto__\<close>,
  which returns the prototype itself.
\<close>

definition object_prototype_functions :: "string list" where
  "object_prototype_functions =
     [''hasOwnProperty'', ''isPrototypeOf'', ''propertyIsEnumerable'', ''toLocaleString'',
      ''toString'', ''valueOf'', ''__defineGetter__'', ''__defineSetter__'',
      ''__lookupGetter__'', ''__lookupSetter__'']"

definition object_prototype_get :: "jsstring \<Rightarrow> jsval" where
  "object_prototype_get k =
     (if k = u ''constructor'' then JBuiltin (NativeFunction (u ''Object''))
      else if k \<in> set (map u object_prototype_functions) then JBuiltin (NativeFunction k)
      else if k = u ''__proto__'' then JBuiltin ObjectPrototype
      else JUndefined)"

text \<open>The index a property name denotes in a sequence of length \<open>n\<close>, if any.\<close>

definition array_index :: "jsstring \<Rightarrow> nat \<Rightarrow> nat option" where
  "array_index k n = find (\<lambda>i. dec i = k) [0..<n]"

text \<open>
  A property read \<^verbatim>\<open>v[k]\<close>, \<^verbatim>\<open>v.k\<close>. On \<^verbatim>\<open>null\<close> and \<^verbatim>\<open>undefined\<close> it throws. A plain
  object answers with its own property, else with what it inherits. An array or a string
  answers for \<^verbatim>\<open>length\<close> and for its indices; every other read is the engine's.
\<close>

fun get :: "platform \<Rightarrow> jsval \<Rightarrow> jsstring \<Rightarrow> exn + jsval" where
  "get P JUndefined k = Inl (TypeError (ReadOfNullish JUndefined k))"
| "get P JNull k = Inl (TypeError (ReadOfNullish JNull k))"
| "get P (JObj kvs) k =
     Inr (case map_of kvs k of Some v \<Rightarrow> v | None \<Rightarrow> object_prototype_get k)"
| "get P (JArr xs) k =
     Inr (if k = u ''length'' then JNum (Fin (of_nat (length xs)))
          else (case array_index k (length xs) of
                  Some i \<Rightarrow> xs ! i
                | None \<Rightarrow> exotic_get P (JArr xs) k))"
| "get P (JStr s) k =
     Inr (if k = u ''length'' then JNum (Fin (of_nat (length s)))
          else (case array_index k (length s) of
                  Some i \<Rightarrow> JStr [s ! i]
                | None \<Rightarrow> exotic_get P (JStr s) k))"
| "get P v k = Inr (exotic_get P v k)"

text \<open>
  ToString, as a template literal applies it. An array joins its elements with commas,
  \<^verbatim>\<open>null\<close> and \<^verbatim>\<open>undefined\<close> elements as empty strings. A plain object is
  \<^verbatim>\<open>[object Object]\<close> through the inherited \<^verbatim>\<open>toString\<close>; when it has an own property of
  that name (never callable in parsed JSON) the conversion fails, \<^verbatim>\<open>valueOf\<close> returning the
  object itself.
\<close>

fun to_string :: "platform \<Rightarrow> jsval \<Rightarrow> exn + jsstring"
  and elements_to_strings :: "platform \<Rightarrow> jsval list \<Rightarrow> exn + jsstring list" where
  "to_string P JUndefined = Inr (u ''undefined'')"
| "to_string P JNull = Inr (u ''null'')"
| "to_string P (JBool b) = Inr (if b then u ''true'' else u ''false'')"
| "to_string P (JNum n) = Inr (num_to_string P n)"
| "to_string P (JStr s) = Inr s"
| "to_string P (JArr xs) =
     (case elements_to_strings P xs of
        Inl e \<Rightarrow> Inl e
      | Inr ss \<Rightarrow> Inr (join (u '','') ss))"
| "to_string P (JObj kvs) =
     (if u ''toString'' \<in> set (map fst kvs) then Inl (TypeError NotPrimitive)
      else Inr (u ''[object Object]''))"
| "to_string P (JBuiltin ObjectPrototype) = Inr (u ''[object Object]'')"
| "to_string P (JBuiltin (NativeFunction name)) = Inr (function_to_string P name)"
| "elements_to_strings P [] = Inr []"
| "elements_to_strings P (x # xs) =
     (case (if nullish x then Inr [] else to_string P x) of
        Inl e \<Rightarrow> Inl e
      | Inr s \<Rightarrow> (case elements_to_strings P xs of
                    Inl e \<Rightarrow> Inl e
                  | Inr ss \<Rightarrow> Inr (s # ss)))"

text \<open>
  \<^verbatim>\<open>Object.keys(v)\<close>: the own enumerable property names; the indices of an array or a
  string; none for a number, a boolean or a function.
\<close>

fun object_keys :: "jsval \<Rightarrow> exn + jsstring list" where
  "object_keys JUndefined = Inl (TypeError KeysOfNullish)"
| "object_keys JNull = Inl (TypeError KeysOfNullish)"
| "object_keys (JObj kvs) = Inr (map fst kvs)"
| "object_keys (JArr xs) = Inr (map dec [0..<length xs])"
| "object_keys (JStr s) = Inr (map dec [0..<length s])"
| "object_keys _ = Inr []"

section \<open>The page of the second script and its HTTP helpers\<close>

text \<open>
  Element content is a list of nodes: markup assigned through \<^verbatim>\<open>innerHTML\<close> (kept as the
  string the script built; parsing it is the browser's) or an element the script created.
\<close>

datatype node = Markup jsstring | Element string "node list"

definition innerHTML :: "jsstring \<Rightarrow> node list" where
  "innerHTML s = (if s = [] then [] else [Markup s])"

datatype request = GET jsstring | POST jsstring jsstring

text \<open>
  The outcome of \<^verbatim>\<open>fetch\<close> and of reading the body: a rejection with its message, or a
  response with its \<^verbatim>\<open>ok\<close> flag (status 200 to 299) and its text.
\<close>

datatype fetch_result = Rejected jsstring | Response bool jsstring

text \<open>
  The page: the values of the inputs the handlers read, the text and content of the elements
  they write, the alerts shown and the requests sent, oldest first.
\<close>

record page =
  q_value :: jsstring
  days_value :: jsstring
  blocks_value :: jsstring
  minutes_value :: jsstring
  weight_value :: jsstring
  reqKo_value :: jsstring
  noFri_checked :: bool
  prefMorning_checked :: bool
  prefCompact_checked :: bool
  coursesInfo :: jsstring
  coursesWrap :: "node list"
  summary :: "node list"
  assignmentsWrap :: "node list"
  alerts :: "jsstring list"
  requests :: "request list"

text \<open>
  Lines 30 and 46, the same text in \<^verbatim>\<open>apiGet\<close> and \<^verbatim>\<open>apiPost\<close>:
  \<^verbatim>\<open>try { const j = JSON.parse(txt); throw new Error(j.detail || j.message || txt); }
  catch { throw new Error(txt); }\<close>
  The \<^verbatim>\<open>throw\<close> of the \<^verbatim>\<open>try\<close> block is inside the block, so the \<^verbatim>\<open>catch\<close> receives it.
\<close>

definition parse_json :: "platform \<Rightarrow> jsstring \<Rightarrow> exn + jsval" where
  "parse_json P txt = (case json_parse P txt of Inl m \<Rightarrow> Inl (Raised m) | Inr v \<Rightarrow> Inr v)"

definition throw_for_failed_response :: "platform \<Rightarrow> jsstring \<Rightarrow> exn + jsval" where
  "throw_for_failed_response P txt =
     try_catch
       (bind (parse_json P txt) (\<lambda>j.
        bind (bind (get P j (u ''detail'')) (\<lambda>d.
                if truthy d then Inr d
                else bind (get P j (u ''message'')) (\<lambda>m.
                       if truthy m then Inr m else Inr (JStr txt)))) (\<lambda>x.
        bind (to_string P x) (\<lambda>s.
        Inl (Error s)))))
       (\<lambda>_. Inl (Error txt))"

text \<open>
  \<^verbatim>\<open>apiGet(path)\<close>. The request goes to \<^verbatim>\<open>new URL(path, BASE).href\<close>, \<^verbatim>\<open>BASE\<close> the origin
  of the page; the model records the path. \<^verbatim>\<open>console.debug\<close> is not modelled.
\<close>

definition apiGet ::
  "platform \<Rightarrow> (request \<Rightarrow> fetch_result) \<Rightarrow> jsstring \<Rightarrow> page \<Rightarrow> (exn + jsval) \<times> page" where
  "apiGet P net path ui =
     (let ui' = ui\<lparr>requests := requests ui @ [GET path]\<rparr> in
      case net (GET path) of
        Rejected m \<Rightarrow> (Inl (Raised m), ui')
      | Response ok txt \<Rightarrow>
          if \<not> ok then (throw_for_failed_response P txt, ui')
          else (parse_json P txt, ui'))"

definition apiPost ::
  "platform \<Rightarrow> (request \<Rightarrow> fetch_result) \<Rightarrow> jsstring \<Rightarrow> jsval \<Rightarrow> page \<Rightarrow> (exn + jsval) \<times> page" where
  "apiPost P net path body ui =
     (let req = POST path (json_stringify P body);
          ui' = ui\<lparr>requests := requests ui @ [req]\<rparr> in
      case net req of
        Rejected m \<Rightarrow> (Inl (Raised m), ui')
      | Response ok txt \<Rightarrow>
          if \<not> ok then (throw_for_failed_response P txt, ui')
          else (parse_json P txt, ui'))"

section \<open>Effects\<close>

text \<open>
  A statement sequence that reads and writes the page and may throw: a function from the
  page to the outcome and the page as the statements left it. A throw keeps the writes made
  before it.
\<close>

definition seq ::
  "('s \<Rightarrow> (exn + 'a) \<times> 's) \<Rightarrow> ('a \<Rightarrow> 's \<Rightarrow> (exn + 'b) \<times> 's) \<Rightarrow> 's \<Rightarrow> (exn + 'b) \<times> 's" where
  "seq m f s = (case m s of (Inl e, s') \<Rightarrow> (Inl e, s') | (Inr v, s') \<Rightarrow> f v s')"

definition compute :: "exn + 'a \<Rightarrow> 's \<Rightarrow> (exn + 'a) \<times> 's" where
  "compute r s = (r, s)"

definition assign :: "('s \<Rightarrow> 's) \<Rightarrow> 's \<Rightarrow> (exn + unit) \<times> 's" where
  "assign f s = (Inr (), f s)"

text \<open>\<^verbatim>\<open>try { body } catch (e) { handler }\<close> around statements; nothing escapes it.\<close>

definition catch :: "('s \<Rightarrow> (exn + unit) \<times> 's) \<Rightarrow> (exn \<Rightarrow> 's \<Rightarrow> 's) \<Rightarrow> 's \<Rightarrow> 's" where
  "catch body handler s = (case body s of (Inl e, s') \<Rightarrow> handler e s' | (Inr _, s') \<Rightarrow> s')"

text \<open>\<^verbatim>\<open>xs.map(f)\<close> with a callback that may throw: left to right, up to the first throw.\<close>

fun traverse :: "('a \<Rightarrow> exn + 'b) \<Rightarrow> 'a list \<Rightarrow> exn + 'b list" where
  "traverse f [] = Inr []"
| "traverse f (x # xs) = bind (f x) (\<lambda>y. bind (traverse f xs) (\<lambda>ys. Inr (y # ys)))"

text \<open>
  The receiver of \<^verbatim>\<open>v.forEach(...)\<close> or \<^verbatim>\<open>v.map(...)\<close>: the elements of an array. No other
  value of the model has a callable property of these names.
\<close>

fun array_method :: "jsstring \<Rightarrow> jsstring \<Rightarrow> jsval \<Rightarrow> exn + jsval list" where
  "array_method callee name (JArr xs) = Inr xs"
| "array_method callee name JUndefined = Inl (TypeError (ReadOfNullish JUndefined name))"
| "array_method callee name JNull = Inl (TypeError (ReadOfNullish JNull name))"
| "array_method callee name _ = Inl (TypeError (NotAFunction callee))"

section \<open>Rendering (second script)\<close>

text \<open>\<^verbatim>\<open>${v[k] ?? d}\<close>\<close>

definition coalesce :: "platform \<Rightarrow> jsval \<Rightarrow> jsstring \<Rightarrow> jsstring \<Rightarrow> exn + jsstring" where
  "coalesce P v k d =
     bind (get P v k) (\<lambda>x. to_string P (if nullish x then JStr d else x))"

text \<open>\<^verbatim>\<open><td>${row[c] ?? ""}</td>\<close> and the header row, the same text in both scripts.\<close>

definition table_cell :: "platform \<Rightarrow> jsval \<Rightarrow> jsstring \<Rightarrow> exn + jsstring" where
  "table_cell P row c = bind (coalesce P row c []) (\<lambda>s. Inr (u ''<td>'' @ s @ u ''</td>''))"

definition header_markup :: "jsstring list \<Rightarrow> jsstring" where
  "header_markup cols =
     u ''<tr>'' @ join [] (map (\<lambda>c. u ''<th>'' @ c @ u ''</th>'') cols) @ u ''</tr>''"

definition table_row :: "platform \<Rightarrow> jsstring list \<Rightarrow> jsval \<Rightarrow> exn + node" where
  "table_row P cols row =
     bind (traverse (table_cell P row) cols) (\<lambda>cells.
     Inr (Element ''tr'' (innerHTML (join [] cells))))"

text \<open>The Korean literals of \<^verbatim>\<open>renderCourses\<close>, as code units.\<close>

definition ko_total :: jsstring where
  "ko_total = [0xCD1D, 0x20]"

definition ko_items :: jsstring where
  "ko_items = [0xAC74]"

definition ko_search_result :: jsstring where
  "ko_search_result = [0xAC80, 0xC0C9, 0x20, 0xACB0, 0xACFC, 0x20]"

definition no_result_markup :: jsstring where
  \<open>no_result_markup =
     u ''<div class="muted">'' @ [0xACB0, 0xACFC, 0x20, 0xC5C6, 0xC74C] @ u ''</div>''\<close>

text \<open>Line 55: the caption, by \<^verbatim>\<open>total == null\<close>.\<close>

definition courses_info :: "platform \<Rightarrow> jsval \<Rightarrow> jsval \<Rightarrow> exn + jsstring" where
  "courses_info P list total' =
     (if nullish total' then
        bind (get P list (u ''length'')) (\<lambda>n.
        bind (to_string P n) (\<lambda>s.
        Inr (ko_total @ s @ ko_items)))
      else
        bind (to_string P total') (\<lambda>s.
        Inr (ko_search_result @ s @ ko_items)))"

text \<open>Lines 63 to 75: the table is built detached and attached once complete.\<close>

definition courses_table :: "platform \<Rightarrow> jsval \<Rightarrow> exn + node" where
  "courses_table P list =
     bind (get P list (u ''0'')) (\<lambda>first.
     bind (object_keys (if truthy first then first else JObj [])) (\<lambda>cols.
     bind (array_method (u ''list.forEach'') (u ''forEach'') list) (\<lambda>rows.
     bind (traverse (table_row P cols) rows) (\<lambda>trs.
     Inr (Element ''table''
            [Element ''thead'' (innerHTML (header_markup cols)),
             Element ''tbody'' trs])))))"

definition renderCourses :: "platform \<Rightarrow> jsval \<Rightarrow> jsval \<Rightarrow> page \<Rightarrow> (exn + unit) \<times> page" where
  "renderCourses P list total' =
     seq (assign (\<lambda>ui. ui\<lparr>coursesWrap := innerHTML []\<rparr>)) (\<lambda>_.
     seq (compute (courses_info P list total')) (\<lambda>info.
     seq (assign (\<lambda>ui. ui\<lparr>coursesInfo := info\<rparr>)) (\<lambda>_.
     seq (compute (get P list (u ''length''))) (\<lambda>n.
     if \<not> truthy n then
       assign (\<lambda>ui. ui\<lparr>coursesWrap := innerHTML no_result_markup\<rparr>)
     else
       seq (compute (courses_table P list)) (\<lambda>table.
       assign (\<lambda>ui. ui\<lparr>coursesWrap := coursesWrap ui @ [table]\<rparr>))))))"

text \<open>\<^verbatim>\<open>renderAssignments\<close>: the markup of lines 86 to 99, line breaks and indentation kept.\<close>

definition no_assignment_markup :: jsstring where
  \<open>no_assignment_markup =
     u ''<div class="muted">''
     @ [0xBC30, 0xC815, 0x20, 0xACB0, 0xACFC, 0xAC00, 0x20, 0xC5C6, 0xC2B5, 0xB2C8, 0xB2E4, 0x2E]
     @ u ''</div>''\<close>

definition assignment_row :: "platform \<Rightarrow> jsval \<Rightarrow> exn + jsstring" where
  \<open>assignment_row P a =
     bind (bind (get P a (u ''course_id'')) (to_string P)) (\<lambda>course_id.
     bind (bind (get P a (u ''session_index'')) (to_string P)) (\<lambda>session_index.
     bind (bind (get P a (u ''day'')) (to_string P)) (\<lambda>day.
     bind (bind (get P a (u ''block'')) (to_string P)) (\<lambda>block.
     bind (bind (get P a (u ''room_id'')) (to_string P)) (\<lambda>room_id.
     Inr ([0x0A] @ u ''        <tr>''
          @ [0x0A] @ u ''          <td>'' @ course_id @ u ''</td>''
          @ [0x0A] @ u ''          <td>'' @ session_index @ u ''</td>''
          @ [0x0A] @ u ''          <td><span class="pill">'' @ day @ u ''</span></td>''
          @ [0x0A] @ u ''          <td>'' @ block @ u ''</td>''
          @ [0x0A] @ u ''          <td>'' @ room_id @ u ''</td>''
          @ [0x0A] @ u ''        </tr>''))))))\<close>

definition assignments_markup :: "platform \<Rightarrow> jsval \<Rightarrow> exn + jsstring" where
  "assignments_markup P assignments =
     bind (array_method (u ''assignments.map'') (u ''map'') assignments) (\<lambda>items.
     bind (traverse (assignment_row P) items) (\<lambda>rows.
     Inr ([0x0A] @ u ''    <thead>''
          @ [0x0A] @ u ''      <tr><th>course_id</th><th>session</th><th>day</th><th>block</th><th>room</th></tr>''
          @ [0x0A] @ u ''    </thead>''
          @ [0x0A] @ u ''    <tbody>''
          @ [0x0A] @ u ''      '' @ join [] rows
          @ [0x0A] @ u ''    </tbody>'')))"

definition renderAssignments :: "platform \<Rightarrow> jsval \<Rightarrow> page \<Rightarrow> (exn + unit) \<times> page" where
  "renderAssignments P assignments =
     seq (assign (\<lambda>ui. ui\<lparr>assignmentsWrap := innerHTML []\<rparr>)) (\<lambda>_.
     seq (compute (if \<not> truthy assignments then Inr JUndefined
                   else get P assignments (u ''length''))) (\<lambda>n.
     if \<not> truthy n then
       assign (\<lambda>ui. ui\<lparr>assignmentsWrap := innerHTML no_assignment_markup\<rparr>)
     else
       seq (compute (assignments_markup P assignments)) (\<lambda>m.
       assign (\<lambda>ui. ui\<lparr>assignmentsWrap :=
                        assignmentsWrap ui @ [Element ''table'' (innerHTML m)]\<rparr>))))"

section \<open>Event handlers (second script)\<close>

definition ko_load_failed :: jsstring where
  "ko_load_failed = [0xBD88, 0xB7EC, 0xC624, 0xAE30, 0x20, 0xC2E4, 0xD328, 0x3A, 0x20]"

definition ko_search_failed :: jsstring where
  "ko_search_failed = [0xAC80, 0xC0C9, 0x20, 0xC2E4, 0xD328, 0x3A, 0x20]"

definition ko_schedule_failed :: jsstring where
  "ko_schedule_failed = [0xBC30, 0xC815, 0x20, 0xC2E4, 0xD328, 0x3A, 0x20]"

definition ko_enter_keyword :: jsstring where
  "ko_enter_keyword =
     [0xD0A4, 0xC6CC, 0xB4DC, 0xB97C, 0x20, 0xC785, 0xB825, 0xD558, 0xC138, 0xC694, 0x2E]"

definition alert :: "jsstring \<Rightarrow> page \<Rightarrow> page" where
  "alert msg ui = ui\<lparr>alerts := alerts ui @ [msg]\<rparr>"

text \<open>Lines 104 to 112. \<^verbatim>\<open>renderCourses(data)\<close> leaves \<^verbatim>\<open>total\<close> at its default, \<^verbatim>\<open>null\<close>.\<close>

definition btnAll_click :: "platform \<Rightarrow> (request \<Rightarrow> fetch_result) \<Rightarrow> page \<Rightarrow> page" where
  "btnAll_click P net =
     catch
       (seq (apiGet P net (u ''/courses?limit=100&offset=0'')) (\<lambda>data.
        renderCourses P data JNull))
       (\<lambda>e. alert (ko_load_failed @ message P e))"

text \<open>
  Lines 114 to 124. The value of an input is a string, so \<^verbatim>\<open>q.value || ""\<close> is the value.
  A parameter default applies to an \<^verbatim>\<open>undefined\<close> argument.
\<close>

definition uri_component :: "platform \<Rightarrow> jsstring \<Rightarrow> exn + jsstring" where
  "uri_component P s = (case encodeURIComponent P s of Inl m \<Rightarrow> Inl (Raised m) | Inr v \<Rightarrow> Inr v)"

definition default_null :: "jsval \<Rightarrow> jsval" where
  "default_null v = (if v = JUndefined then JNull else v)"

definition btnSearch_click :: "platform \<Rightarrow> (request \<Rightarrow> fetch_result) \<Rightarrow> page \<Rightarrow> page" where
  "btnSearch_click P net ui =
     (let kw = trim (q_value ui) in
      if kw = [] then alert ko_enter_keyword ui
      else
        catch
          (seq (compute (uri_component P kw)) (\<lambda>q.
           seq (apiGet P net (u ''/search?q='' @ q @ u ''&limit=100&offset=0'')) (\<lambda>data.
           seq (compute (get P data (u ''results''))) (\<lambda>results.
           seq (compute (get P data (u ''total''))) (\<lambda>total'.
           renderCourses P results (default_null total'))))))
          (\<lambda>e. alert (ko_search_failed @ message P e))
          ui)"

text \<open>
  Lines 128 to 141: the body of the schedule request.
  \<^verbatim>\<open>days.value.split(",").map(s => s.trim()).filter(Boolean)\<close> keeps the non-empty
  trimmed pieces; \<^verbatim>\<open>Number(v || d)\<close> is the default \<open>d\<close> on the empty string and the
  engine's reading of the string otherwise.
\<close>

definition grid_days :: "jsstring \<Rightarrow> jsstring list" where
  "grid_days s = filter (\<lambda>d. d \<noteq> []) (map trim (split_on 0x2C s))"

definition number_or :: "platform \<Rightarrow> jsstring \<Rightarrow> rat \<Rightarrow> jsnum" where
  "number_or P v d = (if v \<noteq> [] then string_to_num P v else Fin d)"

definition schedule_payload :: "platform \<Rightarrow> page \<Rightarrow> jsval" where
  "schedule_payload P ui =
     (let reqText = trim (reqKo_value ui) in
      if reqText \<noteq> [] then
        JObj [(u ''requirements_ko'', JStr reqText)]
      else
        JObj
          [(u ''grid_days'', JArr (map JStr (grid_days (days_value ui)))),
           (u ''blocks_per_day'', JNum (number_or P (blocks_value ui) 8)),
           (u ''block_minutes'', JNum (number_or P (minutes_value ui) 50)),
           (u ''hard_no_friday_evening'', JBool (noFri_checked ui)),
           (u ''soft_prefer_morning'', JBool (prefMorning_checked ui)),
           (u ''soft_prefer_compact_days'', JBool (prefCompact_checked ui)),
           (u ''soft_weight'', JNum (number_or P (weight_value ui) 1))])"

text \<open>Lines 145 to 150: the summary line, line breaks and indentation kept.\<close>

definition summary_markup :: "platform \<Rightarrow> jsval \<Rightarrow> exn + jsstring" where
  \<open>summary_markup P res =
     bind (get P res (u ''summary'')) (\<lambda>s0.
     let s = (if truthy s0 then s0 else JObj []) in
     bind (coalesce P s (u ''courses'') (u ''?'')) (\<lambda>courses.
     bind (coalesce P s (u ''rooms'') (u ''?'')) (\<lambda>rooms.
     bind (coalesce P s (u ''instructors'') (u ''?'')) (\<lambda>instructors.
     bind (bind (get P s (u ''days'')) (\<lambda>d.
             case d of JArr xs \<Rightarrow> to_string P (JArr xs) | _ \<Rightarrow> Inr [])) (\<lambda>days.
     bind (coalesce P s (u ''blocks_per_day'') (u ''?'')) (\<lambda>blocks.
     Inr ([0x0A] @ u ''      <div class="muted">''
          @ [0x0A] @ u ''        '' @ [0xACFC, 0xBAA9, 0x20] @ courses
          @ [0xAC1C, 0x20, 0xB7, 0x20, 0xBC29, 0x20] @ rooms
          @ [0xAC1C, 0x20, 0xB7, 0x20, 0xAC15, 0xC0AC, 0x20] @ instructors
          @ [0xBA85, 0x20, 0xB7]
          @ [0x0A] @ u ''        '' @ days
          @ [0x20, 0x2F, 0x20, 0xC77C, 0xC77C, 0x20] @ blocks
          @ [0xAD50, 0xC2DC]
          @ [0x0A] @ u ''      </div>'')))))))\<close>

text \<open>\<^verbatim>\<open>res.solution?.assignments || []\<close>\<close>

definition assignments_of :: "platform \<Rightarrow> jsval \<Rightarrow> exn + jsval" where
  "assignments_of P res =
     bind (get P res (u ''solution'')) (\<lambda>solution.
     bind (if nullish solution then Inr JUndefined
           else get P solution (u ''assignments'')) (\<lambda>a.
     Inr (if truthy a then a else JArr [])))"

text \<open>Lines 126 to 157.\<close>

definition btnSchedule_click :: "platform \<Rightarrow> (request \<Rightarrow> fetch_result) \<Rightarrow> page \<Rightarrow> page" where
  "btnSchedule_click P net =
     catch
       (seq (\<lambda>ui. apiPost P net (u ''/schedule'') (schedule_payload P ui) ui) (\<lambda>res.
        seq (compute (summary_markup P res)) (\<lambda>m.
        seq (assign (\<lambda>ui. ui\<lparr>summary := innerHTML m\<rparr>)) (\<lambda>_.
        seq (compute (assignments_of P res)) (\<lambda>a.
        renderAssignments P a)))))
       (\<lambda>e. alert (ko_schedule_failed @ message P e))"

section \<open>The first script (frontend/app.js)\<close>

text \<open>
  Its page: the query input, the header and body of the table \<^verbatim>\<open>#tbl\<close>, the text of
  \<^verbatim>\<open>#meta\<close>, and the requests sent. The script never calls \<^verbatim>\<open>alert\<close>.
\<close>

record app_page =
  q_text :: jsstring
  thead :: "node list"
  tbody :: "node list"
  meta :: jsstring
  fetches :: "request list"

text \<open>
  Lines 10 to 14: each row is appended to the table body of the page as soon as it is built.
\<close>

fun render_rows ::
  "platform \<Rightarrow> jsstring list \<Rightarrow> jsval list \<Rightarrow> app_page \<Rightarrow> (exn + unit) \<times> app_page" where
  "render_rows P cols [] ui = (Inr (), ui)"
| "render_rows P cols (r # rs) ui =
     (case table_row P cols r of
        Inl e \<Rightarrow> (Inl e, ui)
      | Inr tr \<Rightarrow> render_rows P cols rs (ui\<lparr>tbody := tbody ui @ [tr]\<rparr>))"

definition render :: "platform \<Rightarrow> jsval \<Rightarrow> app_page \<Rightarrow> (exn + unit) \<times> app_page" where
  "render P rows =
     seq (assign (\<lambda>ui. ui\<lparr>thead := innerHTML [], tbody := innerHTML []\<rparr>)) (\<lambda>_.
     seq (compute (get P rows (u ''length''))) (\<lambda>n.
     if \<not> truthy n then
       assign (\<lambda>ui. ui\<lparr>thead := innerHTML (u ''<tr><th>No data</th></tr>'')\<rparr>)
     else
       seq (compute (bind (get P rows (u ''0'')) object_keys)) (\<lambda>cols.
       seq (assign (\<lambda>ui. ui\<lparr>thead := innerHTML (header_markup cols)\<rparr>)) (\<lambda>_.
       seq (compute (array_method (u ''rows.forEach'') (u ''forEach'') rows)) (\<lambda>rs.
       render_rows P cols rs)))))"

text \<open>
  \<^verbatim>\<open>fetch(url)\<close> followed by \<^verbatim>\<open>res.json()\<close>: the body is parsed whatever the status.
\<close>

definition fetch_json ::
  "platform \<Rightarrow> (request \<Rightarrow> fetch_result) \<Rightarrow> jsstring \<Rightarrow> app_page \<Rightarrow> (exn + jsval) \<times> app_page" where
  "fetch_json P net url ui =
     (let ui' = ui\<lparr>fetches := fetches ui @ [GET url]\<rparr> in
      case net (GET url) of
        Rejected m \<Rightarrow> (Inl (Raised m), ui')
      | Response ok txt \<Rightarrow> (parse_json P txt, ui'))"

definition ko_shown :: jsstring where
  "ko_shown = [0xD45C, 0xC2DC, 0x3A, 0x20]"

definition ko_found :: jsstring where
  "ko_found = [0xAC80, 0xC0C9, 0xACB0, 0xACFC, 0x3A, 0x20]"

text \<open>Lines 17 to 22. Nothing catches what these statements throw.\<close>

definition loadAll ::
  "platform \<Rightarrow> (request \<Rightarrow> fetch_result) \<Rightarrow> app_page \<Rightarrow> (exn + unit) \<times> app_page" where
  "loadAll P net =
     seq (fetch_json P net (u ''/courses?limit=100'')) (\<lambda>data.
     seq (compute (bind (get P data (u ''length'')) (to_string P))) (\<lambda>n.
     seq (assign (\<lambda>ui. ui\<lparr>meta := ko_shown @ n @ ko_items\<rparr>)) (\<lambda>_.
     render P data)))"

text \<open>
  Lines 24 to 31. With an empty query \<^verbatim>\<open>loadAll()\<close> is started and not awaited: its
  effects are those of \<open>loadAll\<close>, and what it throws does not reach the caller.
\<close>

definition doSearch ::
  "platform \<Rightarrow> (request \<Rightarrow> fetch_result) \<Rightarrow> app_page \<Rightarrow> (exn + unit) \<times> app_page" where
  "doSearch P net ui =
     (let q = trim (q_text ui) in
      if q = [] then (Inr (), snd (loadAll P net ui))
      else
        seq (compute (uri_component P q)) (\<lambda>q'.
        seq (fetch_json P net (u ''/search?q='' @ q' @ u ''&limit=100'')) (\<lambda>data.
        seq (compute (bind (get P data (u ''total'')) (to_string P))) (\<lambda>n.
        seq (assign (\<lambda>ui. ui\<lparr>meta := ko_found @ n @ ko_items\<rparr>)) (\<lambda>_.
        seq (compute (get P data (u ''results''))) (\<lambda>results.
        render P results)))))
        ui)"

section \<open>A sample browser\<close>

text \<open>
  One instance of the platform, for evaluating the scripts on concrete inputs. It follows
  ECMA-262 where that is short to write: \<^verbatim>\<open>encodeURIComponent\<close> (UTF-8, percent escapes,
  URIError on a lone surrogate) and \<^verbatim>\<open>JSON.stringify\<close> (lone surrogates are not escaped).
  Numbers print their integer part in decimal and \<^verbatim>\<open>Number\<close> reads unsigned decimal
  integers, which is exact on the integers the examples use. \<^verbatim>\<open>JSON.parse\<close> knows the
  documents of the examples and takes any other text as malformed. The messages are those of
  V8. Reads the model leaves to the engine see the members of \<^verbatim>\<open>Object.prototype\<close>.
\<close>

fun sample_num_to_string :: "jsnum \<Rightarrow> jsstring" where
  "sample_num_to_string NaN = u ''NaN''"
| "sample_num_to_string PosInf = u ''Infinity''"
| "sample_num_to_string NegInf = u ''-Infinity''"
| "sample_num_to_string (Fin r) = (if r < 0 then u ''-'' else []) @ dec (nat \<lfloor>\<bar>r\<bar>\<rfloor>)"

definition is_digit :: "16 word \<Rightarrow> bool" where
  "is_digit c \<longleftrightarrow> 0x30 \<le> c \<and> c \<le> 0x39"

definition sample_string_to_num :: "jsstring \<Rightarrow> jsnum" where
  "sample_string_to_num s =
     (let t = trim s in
      if t = [] then Fin 0
      else if list_all is_digit t then Fin (of_nat (foldl (\<lambda>n c. 10 * n + unat (c - 0x30)) 0 t))
      else NaN)"

definition unreserved :: "16 word \<Rightarrow> bool" where
  "unreserved c \<longleftrightarrow>
     (0x41 \<le> c \<and> c \<le> 0x5A) \<or> (0x61 \<le> c \<and> c \<le> 0x7A) \<or> (0x30 \<le> c \<and> c \<le> 0x39)
     \<or> c \<in> set [0x2D, 0x5F, 0x2E, 0x21, 0x7E, 0x2A, 0x27, 0x28, 0x29]"

definition hex_digit :: "nat \<Rightarrow> 16 word" where
  "hex_digit n = (if n < 10 then 0x30 + of_nat n else 0x41 + of_nat (n - 10))"

definition lower_hex_digit :: "nat \<Rightarrow> 16 word" where
  "lower_hex_digit n = (if n < 10 then 0x30 + of_nat n else 0x61 + of_nat (n - 10))"

definition percent :: "nat \<Rightarrow> jsstring" where
  "percent b = [0x25, hex_digit (b div 16), hex_digit (b mod 16)]"

definition utf8 :: "nat \<Rightarrow> nat list" where
  "utf8 cp =
     (if cp < 0x80 then [cp]
      else if cp < 0x800 then [0xC0 + cp div 64, 0x80 + cp mod 64]
      else if cp < 0x10000 then [0xE0 + cp div 4096, 0x80 + cp div 64 mod 64, 0x80 + cp mod 64]
      else [0xF0 + cp div 262144, 0x80 + cp div 4096 mod 64, 0x80 + cp div 64 mod 64,
            0x80 + cp mod 64])"

definition uri_malformed :: jsstring where
  "uri_malformed = u ''URI malformed''"

fun sample_encode :: "16 word option \<Rightarrow> jsstring \<Rightarrow> jsstring + jsstring" where
  "sample_encode None [] = Inr []"
| "sample_encode (Some h) [] = Inl uri_malformed"
| "sample_encode None (c # cs) =
     (if 0xD800 \<le> c \<and> c \<le> 0xDBFF then sample_encode (Some c) cs
      else if 0xDC00 \<le> c \<and> c \<le> 0xDFFF then Inl uri_malformed
      else (case sample_encode None cs of
              Inl m \<Rightarrow> Inl m
            | Inr r \<Rightarrow> Inr ((if unreserved c then [c] else concat (map percent (utf8 (unat c)))) @ r)))"
| "sample_encode (Some h) (c # cs) =
     (if 0xDC00 \<le> c \<and> c \<le> 0xDFFF then
        (case sample_encode None cs of
           Inl m \<Rightarrow> Inl m
         | Inr r \<Rightarrow>
             Inr (concat (map percent
                    (utf8 (0x10000 + (unat h - 0xD800) * 1024 + (unat c - 0xDC00)))) @ r))
      else Inl uri_malformed)"


definition quote_char :: "16 word \<Rightarrow> jsstring" where
  "quote_char c =
     (if c = 0x22 then [0x5C, 0x22]
      else if c = 0x5C then [0x5C, 0x5C]
      else if c = 0x08 then [0x5C, 0x62]
      else if c = 0x09 then [0x5C, 0x74]
      else if c = 0x0A then [0x5C, 0x6E]
      else if c = 0x0C then [0x5C, 0x66]
      else if c = 0x0D then [0x5C, 0x72]
      else if c < 0x20 then [0x5C, 0x75, 0x30, 0x30, lower_hex_digit (unat c div 16),
                             lower_hex_digit (unat c mod 16)]
      else [c])"

definition quote :: "jsstring \<Rightarrow> jsstring" where
  "quote s = [0x22] @ concat (map quote_char s) @ [0x22]"

fun sample_stringify :: "jsval \<Rightarrow> jsstring option"
  and stringify_elements :: "jsval list \<Rightarrow> jsstring list"
  and stringify_properties :: "(jsstring \<times> jsval) list \<Rightarrow> jsstring list" where
  "sample_stringify JUndefined = None"
| "sample_stringify JNull = Some (u ''null'')"
| "sample_stringify (JBool b) = Some (if b then u ''true'' else u ''false'')"
| "sample_stringify (JNum (Fin r)) = Some (sample_num_to_string (Fin r))"
| "sample_stringify (JNum _) = Some (u ''null'')"
| "sample_stringify (JStr s) = Some (quote s)"
| "sample_stringify (JArr xs) = Some (u ''['' @ join (u '','') (stringify_elements xs) @ u '']'')"
| "sample_stringify (JObj kvs) =
     Some (u ''{'' @ join (u '','') (stringify_properties kvs) @ u ''}'')"
| "sample_stringify (JBuiltin ObjectPrototype) = Some (u ''{}'')"
| "sample_stringify (JBuiltin (NativeFunction _)) = None"
| "stringify_elements [] = []"
| "stringify_elements (x # xs) =
     (case sample_stringify x of None \<Rightarrow> u ''null'' | Some t \<Rightarrow> t) # stringify_elements xs"
| "stringify_properties [] = []"
| "stringify_properties ((k, v) # kvs) =
     (case sample_stringify v of
        None \<Rightarrow> stringify_properties kvs
      | Some t \<Rightarrow> (quote k @ u '':'' @ t) # stringify_properties kvs)"

fun sample_fault_message :: "fault \<Rightarrow> jsstring" where
  "sample_fault_message (ReadOfNullish v k) =
     u ''Cannot read properties of '' @ (if v = JNull then u ''null'' else u ''undefined'')
     @ u '' (reading '' @ [0x27] @ k @ [0x27] @ u '')''"
| "sample_fault_message KeysOfNullish = u ''Cannot convert undefined or null to object''"
| "sample_fault_message (NotAFunction callee) = callee @ u '' is not a function''"
| "sample_fault_message NotPrimitive = u ''Cannot convert object to primitive value''"

definition sample_documents :: "(jsstring \<times> jsval) list" where
  \<open>sample_documents =
     [(u ''[]'', JArr []),
      (u ''{"detail":"Not found"}'', JObj [(u ''detail'', JStr (u ''Not found''))]),
      (u ''[{"id":1,"name":"AI"},{"id":2}]'',
         JArr [JObj [(u ''id'', JNum (Fin 1)), (u ''name'', JStr (u ''AI''))],
               JObj [(u ''id'', JNum (Fin 2))]]),
      (u ''{"results":[{"id":1,"name":"AI"}],"total":1}'',
         JObj [(u ''results'',
                  JArr [JObj [(u ''id'', JNum (Fin 1)), (u ''name'', JStr (u ''AI''))]]),
               (u ''total'', JNum (Fin 1))]),
      (u ''{"results":[{"a":{"toString":1}}],"total":1}'',
         JObj [(u ''results'', JArr [JObj [(u ''a'', JObj [(u ''toString'', JNum (Fin 1))])]]),
               (u ''total'', JNum (Fin 1))])]\<close>

definition sample_platform :: platform where
  "sample_platform =
     \<lparr>json_parse = (\<lambda>txt. case map_of sample_documents txt of
                             None \<Rightarrow> Inl (u ''Unexpected token'')
                           | Some v \<Rightarrow> Inr v),
      json_stringify = (\<lambda>v. case sample_stringify v of None \<Rightarrow> [] | Some t \<Rightarrow> t),
      num_to_string = sample_num_to_string,
      string_to_num = sample_string_to_num,
      encodeURIComponent = sample_encode None,
      fault_message = sample_fault_message,
      function_to_string = (\<lambda>name. u ''function '' @ name @ u ''() { [native code] }''),
      exotic_get = (\<lambda>v. object_prototype_get)\<rparr>"

text \<open>An empty page, and a server that answers every request with 404 and a JSON error.\<close>

definition blank_page :: page where
  "blank_page =
     \<lparr>q_value = [], days_value = [], blocks_value = [], minutes_value = [], weight_value = [],
      reqKo_value = [], noFri_checked = False, prefMorning_checked = False,
      prefCompact_checked = False, coursesInfo = [], coursesWrap = [], summary = [],
      assignmentsWrap = [], alerts = [], requests = []\<rparr>"

definition not_found_body :: jsstring where
  \<open>not_found_body = u ''{"detail":"Not found"}''\<close>

definition not_found_net :: "request \<Rightarrow> fetch_result" where
  "not_found_net r = Response False not_found_body"

text \<open>The field names of the structured schedule request, and two filled-in forms.\<close>

definition schedule_fields :: "string list" where
  "schedule_fields =
     [''grid_days'', ''blocks_per_day'', ''block_minutes'', ''hard_no_friday_evening'',
      ''soft_prefer_morning'', ''soft_prefer_compact_days'', ''soft_weight'']"


text \<open>
  The message with which a request fails, if it does, for the helpers of the second script:
  the rejection of \<^verbatim>\<open>fetch\<close>, the body text of a response outside 200 to 299, or the
  SyntaxError of a body that is not JSON.
\<close>

definition request_failure ::
  "platform \<Rightarrow> (request \<Rightarrow> fetch_result) \<Rightarrow> request \<Rightarrow> jsstring option" where
  "request_failure P net req =
     (case net req of
        Rejected m \<Rightarrow> Some m
      | Response ok txt \<Rightarrow>
          if \<not> ok then Some txt
          else (case json_parse P txt of Inl m \<Rightarrow> Some m | Inr v \<Rightarrow> None))"

text \<open>
  The names of the query parameters of a URL: what follows the first \<^verbatim>\<open>?\<close> is cut at
  each \<^verbatim>\<open>&\<close>, and each piece is read up to its \<^verbatim>\<open>=\<close>.
\<close>

definition query_names :: "jsstring \<Rightarrow> jsstring list" where
  "query_names url =
     (case dropWhile (\<lambda>c. c \<noteq> 0x3F) url of
        [] \<Rightarrow> []
      | _ # query \<Rightarrow> map (takeWhile (\<lambda>c. c \<noteq> 0x3D)) (split_on 0x26 query))"

text \<open>The page of the first script before anything is shown, and a network that is down.\<close>

definition blank_app_page :: app_page where
  "blank_app_page = \<lparr>q_text = [], thead = [], tbody = [], meta = [], fetches = []\<rparr>"

definition offline_net :: "request \<Rightarrow> fetch_result" where
  "offline_net r = Rejected (u ''Failed to fetch'')"

text \<open>A server that answers every request with an HTML page, and a page with a keyword.\<close>

definition html_net :: "request \<Rightarrow> fetch_result" where
  "html_net r = Response True (u ''<html>'')"

definition keyword_page :: page where
  "keyword_page = blank_page\<lparr>q_value := u '' AI ''\<rparr>"

text \<open>
  The values ToString converts: every value but a plain object with an own property named
  \<^verbatim>\<open>toString\<close>, and an array whose elements, \<^verbatim>\<open>null\<close> and \<^verbatim>\<open>undefined\<close> apart, convert.
\<close>

fun printable :: "jsval \<Rightarrow> bool"
  and printable_elements :: "jsval list \<Rightarrow> bool" where
  "printable (JArr xs) = printable_elements xs"
| "printable (JObj kvs) = (u ''toString'' \<notin> set (map fst kvs))"
| "printable v = True"
| "printable_elements [] = True"
| "printable_elements (x # xs) = ((nullish x \<or> printable x) \<and> printable_elements xs)"

text \<open>
  The table a list of row objects is expected to give: the header cells are the keys of the
  first object, and each object gives one row holding, for each of these keys in order, a
  cell with the text of what the object answers for the key (nothing for \<^verbatim>\<open>null\<close> and
  \<^verbatim>\<open>undefined\<close>).
\<close>

definition text_of :: "platform \<Rightarrow> jsval \<Rightarrow> jsstring" where
  "text_of P v = (case to_string P (if nullish v then JStr [] else v) of Inl e \<Rightarrow> [] | Inr s \<Rightarrow> s)"

definition cell_value :: "(jsstring \<times> jsval) list \<Rightarrow> jsstring \<Rightarrow> jsval" where
  "cell_value kvs c = (case map_of kvs c of Some v \<Rightarrow> v | None \<Rightarrow> object_prototype_get c)"

text \<open>Every cell of the row, for the given columns, converts.\<close>

definition printable_cells :: "jsstring list \<Rightarrow> (jsstring \<times> jsval) list \<Rightarrow> bool" where
  "printable_cells cols kvs = list_all (\<lambda>c. printable (cell_value kvs c)) cols"

definition row_element :: "platform \<Rightarrow> jsstring list \<Rightarrow> (jsstring \<times> jsval) list \<Rightarrow> node" where
  "row_element P cols kvs =
     Element ''tr''
       (innerHTML (join [] (map (\<lambda>c. u ''<td>'' @ text_of P (cell_value kvs c) @ u ''</td>'') cols)))"

definition table_element :: "platform \<Rightarrow> (jsstring \<times> jsval) list list \<Rightarrow> node" where
  "table_element P rows =
     Element ''table''
       [Element ''thead'' [Markup (header_markup (map fst (hd rows)))],
        Element ''tbody'' (map (row_element P (map fst (hd rows))) rows)]"

text \<open>The property names a plain object answers for without having them.\<close>

definition inherited_names :: "jsstring list" where
  "inherited_names = u ''constructor'' # map u object_prototype_functions @ [u ''__proto__'']"

text \<open>
  Three lists of rows: two plain courses; one course whose only cell is an object with an own
  \<^verbatim>\<open>toString\<close>; a course with a column named \<^verbatim>\<open>constructor\<close> followed by an empty one.
\<close>

definition sample_rows :: "(jsstring \<times> jsval) list list" where
  "sample_rows =
     [[(u ''id'', JNum (Fin 1)), (u ''name'', JStr (u ''AI''))],
      [(u ''id'', JNum (Fin 2))]]"

definition unprintable_rows :: jsval where
  "unprintable_rows = JArr [JObj [(u ''a'', JObj [(u ''toString'', JNum (Fin 1))])]]"

definition constructor_rows :: jsval where
  "constructor_rows = JArr [JObj [(u ''constructor'', JStr (u ''Kim''))], JObj []]"

text \<open>
  A search response with one course and the count 1, a server that answers every request with
  it, and the page of the first script with a keyword.
\<close>

definition search_body :: jsstring where
  \<open>search_body = u ''{"results":[{"id":1,"name":"AI"}],"total":1}''\<close>

definition found_rows :: "(jsstring \<times> jsval) list list" where
  "found_rows = [[(u ''id'', JNum (Fin 1)), (u ''name'', JStr (u ''AI''))]]"

definition search_response :: "(jsstring \<times> jsval) list" where
  "search_response = [(u ''results'', JArr (map JObj found_rows)), (u ''total'', JNum (Fin 1))]"

definition search_net :: "request \<Rightarrow> fetch_result" where
  "search_net r = Response True search_body"

definition keyword_app_page :: app_page where
  "keyword_app_page = blank_app_page\<lparr>q_text := u '' AI ''\<rparr>"

text \<open>
  A search response whose one result holds an object with an own \<^verbatim>\<open>toString\<close>, and a server
  that answers every request with it.
\<close>

definition unprintable_search_body :: jsstring where
  \<open>unprintable_search_body = u ''{"results":[{"a":{"toString":1}}],"total":1}''\<close>

definition unprintable_search_net :: "request \<Rightarrow> fetch_result" where
  "unprintable_search_net r = Response True unprintable_search_body"

section \<open>Strings\<close>

lemma of_char_word_inj: "(of_char a :: 16 word) = of_char b \<Longrightarrow> a = b"
proof -
  assume "(of_char a :: 16 word) = of_char b"
  then have "(of_nat (of_char a) :: 16 word) = of_nat (of_char b)"
    by (simp add: of_nat_of_char)
  then have "unat (of_nat (of_char a) :: 16 word) = unat (of_nat (of_char b) :: 16 word)"
    by simp
  moreover have "(of_char a :: nat) < 65536" "(of_char b :: nat) < 65536"
    by (rule less_trans [OF nat_of_char_less_256], simp)+
  ultimately have "(of_char a :: nat) = of_char b"
    by (simp add: unat_of_nat)
  then show "a = b" by simp
qed

lemma u_eq_iff [simp]: "u s = u t \<longleftrightarrow> s = t"
proof -
  have "inj (of_char :: char \<Rightarrow> 16 word)"
    by (rule injI) (rule of_char_word_inj)
  then show ?thesis by (simp add: u_def inj_map_eq_map)
qed

lemma u_Nil_iff [simp]: "u s = [] \<longleftrightarrow> s = []"
  by (simp add: u_def)



lemmas effect_defs = seq_def compute_def assign_def catch_def bind_def

section \<open>What a statement sequence leaves unchanged\<close>

lemma seq_keeps:
  assumes "\<And>v s'. obs (snd (f v s')) = obs s'"
  shows "obs (snd (seq m f s)) = obs (snd (m s))"
proof (cases "m s")
  case (Pair r s')
  then show ?thesis using assms by (cases r) (simp_all add: seq_def)
qed

lemma compute_keeps: "obs (snd (compute r s)) = obs s"
  by (simp add: compute_def)

lemma catch_keeps:
  assumes "\<And>e s'. obs (handler e s') = obs s'"
  shows "obs (catch body handler s) = obs (snd (body s))"
proof (cases "body s")
  case (Pair r s')
  then show ?thesis using assms by (cases r) (simp_all add: catch_def)
qed

lemma apiGet_page:
  "snd (apiGet P net path ui) = ui\<lparr>requests := requests ui @ [GET path]\<rparr>"
  by (simp add: apiGet_def Let_def split: fetch_result.splits)

lemma apiPost_page:
  "snd (apiPost P net path body ui)
     = ui\<lparr>requests := requests ui @ [POST path (json_stringify P body)]\<rparr>"
  by (simp add: apiPost_def Let_def split: fetch_result.splits)

lemma requests_renderCourses: "requests (snd (renderCourses P l t ui)) = requests ui"
  unfolding renderCourses_def
  by (simp add: seq_keeps compute_keeps assign_def)

lemma requests_renderAssignments: "requests (snd (renderAssignments P a ui)) = requests ui"
  unfolding renderAssignments_def
  by (simp add: seq_keeps compute_keeps assign_def)

lemma requests_alert: "requests (alert m ui) = requests ui"
  by (simp add: alert_def)

lemma requests_btnAll:
  "requests (btnAll_click P net ui) = requests ui @ [GET (u ''/courses?limit=100&offset=0'')]"
  unfolding btnAll_click_def
  by (simp add: catch_keeps requests_alert seq_keeps requests_renderCourses apiGet_page)

lemma requests_btnSchedule:
  "requests (btnSchedule_click P net ui)
     = requests ui @ [POST (u ''/schedule'') (json_stringify P (schedule_payload P ui))]"
  unfolding btnSchedule_click_def
  by (simp add: catch_keeps requests_alert seq_keeps compute_keeps requests_renderAssignments
        assign_def apiPost_page)

section \<open>Failed responses\<close>

lemma failed_response_throws_text: "throw_for_failed_response P txt = Inl (Error txt)"
  by (simp add: throw_for_failed_response_def try_catch_def bind_def split: sum.splits)

lemma apiGet_failed_response:
  "net (GET path) = Response False txt \<Longrightarrow> fst (apiGet P net path ui) = Inl (Error txt)"
  by (simp add: apiGet_def failed_response_throws_text Let_def)

lemma apiPost_failed_response:
  "net (POST path (json_stringify P body)) = Response False txt \<Longrightarrow>
   fst (apiPost P net path body ui) = Inl (Error txt)"
  by (simp add: apiPost_def failed_response_throws_text Let_def)

lemma parse_not_found_body:
  "json_parse sample_platform not_found_body = Inr (JObj [(u ''detail'', JStr (u ''Not found''))])"
  by (simp add: sample_platform_def sample_documents_def not_found_body_def u_def)

text \<open>
  C1. A failed response whose body is JSON with a \<^verbatim>\<open>detail\<close> or \<^verbatim>\<open>message\<close> field should
  make \<^verbatim>\<open>apiGet\<close> and \<^verbatim>\<open>apiPost\<close> throw an error with that field's value as its message.
  The code does not: on the 404 response with the body \<^verbatim>\<open>{"detail":"Not found"}\<close>, which
  parses to an object whose \<^verbatim>\<open>detail\<close> is \<^verbatim>\<open>Not found\<close>, both throw an error whose message
  is the whole body text. The error built from the field is thrown inside the \<^verbatim>\<open>try\<close> block
  and replaced by its \<^verbatim>\<open>catch\<close>.
\<close>

theorem failed_json_response_message_is_body_text:
  "json_parse sample_platform not_found_body
     = Inr (JObj [(u ''detail'', JStr (u ''Not found''))])
   \<and> fst (apiGet sample_platform not_found_net (u ''/courses?limit=100&offset=0'') blank_page)
     = Inl (Error not_found_body)
   \<and> fst (apiPost sample_platform not_found_net (u ''/schedule'') (JObj []) blank_page)
     = Inl (Error not_found_body)
   \<and> not_found_body \<noteq> u ''Not found''"
proof -
  have "not_found_body \<noteq> u ''Not found''"
    by (simp add: not_found_body_def u_def)
  then show ?thesis
    by (simp add: parse_not_found_body apiGet_failed_response apiPost_failed_response
          not_found_net_def)
qed

section \<open>The empty list\<close>

text \<open>
  C4. Rendering an empty list shows the placeholder in place of a table and no data row:
  the first script puts the \<^verbatim>\<open>No data\<close> header row and leaves the table body empty; in the
  second script \<^verbatim>\<open>renderCourses\<close> (without a count, and with a count) and
  \<^verbatim>\<open>renderAssignments\<close> leave their container holding the placeholder only.
\<close>

theorem empty_list_renders_placeholder:
  "render P (JArr []) ui
     = (Inr (), ui\<lparr>thead := [Markup (u ''<tr><th>No data</th></tr>'')], tbody := []\<rparr>)
   \<and> renderCourses P (JArr []) JNull pg
     = (Inr (), pg\<lparr>coursesInfo := ko_total @ num_to_string P (Fin 0) @ ko_items,
                     coursesWrap := [Markup no_result_markup]\<rparr>)
   \<and> renderCourses P (JArr []) (JNum n) pg
     = (Inr (), pg\<lparr>coursesInfo := ko_search_result @ num_to_string P n @ ko_items,
                     coursesWrap := [Markup no_result_markup]\<rparr>)
   \<and> renderAssignments P (JArr []) pg
     = (Inr (), pg\<lparr>assignmentsWrap := [Markup no_assignment_markup]\<rparr>)"
proof (intro conjI)
  show "render P (JArr []) ui
     = (Inr (), ui\<lparr>thead := [Markup (u ''<tr><th>No data</th></tr>'')], tbody := []\<rparr>)"
    by (simp add: render_def effect_defs innerHTML_def)
  show "renderCourses P (JArr []) JNull pg
     = (Inr (), pg\<lparr>coursesInfo := ko_total @ num_to_string P (Fin 0) @ ko_items,
                     coursesWrap := [Markup no_result_markup]\<rparr>)"
    by (simp add: renderCourses_def courses_info_def effect_defs innerHTML_def
          no_result_markup_def)
  show "renderCourses P (JArr []) (JNum n) pg
     = (Inr (), pg\<lparr>coursesInfo := ko_search_result @ num_to_string P n @ ko_items,
                     coursesWrap := [Markup no_result_markup]\<rparr>)"
    by (simp add: renderCourses_def courses_info_def effect_defs innerHTML_def
          no_result_markup_def)
  show "renderAssignments P (JArr []) pg
     = (Inr (), pg\<lparr>assignmentsWrap := [Markup no_assignment_markup]\<rparr>)"
    by (simp add: renderAssignments_def effect_defs innerHTML_def no_assignment_markup_def)
qed

section \<open>The schedule request\<close>

text \<open>
  C5. A click on the schedule button sends one POST to \<^verbatim>\<open>/schedule\<close> whose body is the
  serialised payload, and the payload has one of two shapes: when the free-text input is not
  empty after trimming, the object with the single field \<^verbatim>\<open>requirements_ko\<close> holding the
  trimmed text; otherwise the object whose fields are exactly the seven structured ones.
\<close>

theorem schedule_body_has_one_of_two_shapes:
  "requests (btnSchedule_click P net ui)
     = requests ui @ [POST (u ''/schedule'') (json_stringify P (schedule_payload P ui))]
   \<and> (if trim (reqKo_value ui) \<noteq> []
       then schedule_payload P ui = JObj [(u ''requirements_ko'', JStr (trim (reqKo_value ui)))]
       else object_keys (schedule_payload P ui) = Inr (map u schedule_fields))"
  by (simp add: requests_btnSchedule schedule_payload_def Let_def schedule_fields_def)





section \<open>Requests and their failures\<close>

lemma seq_compute_Inr: "seq (compute (Inr v)) f = f v"
  by (rule ext) (simp add: seq_def compute_def)

lemma apiGet_failure:
  assumes "request_failure P net (GET path) = Some m"
  shows "\<exists>e. apiGet P net path ui = (Inl e, ui\<lparr>requests := requests ui @ [GET path]\<rparr>)
             \<and> message P e = m"
proof (cases "net (GET path)")
  case (Rejected msg)
  with assms show ?thesis by (simp add: request_failure_def apiGet_def)
next
  case (Response ok t)
  show ?thesis
  proof (cases ok)
    case False
    with Response assms show ?thesis
      by (simp add: request_failure_def apiGet_def failed_response_throws_text)
  next
    case True
    with Response assms show ?thesis
      by (auto simp: request_failure_def apiGet_def parse_json_def split: sum.splits)
  qed
qed

lemma apiPost_failure:
  assumes "request_failure P net (POST path (json_stringify P body)) = Some m"
  shows "\<exists>e. apiPost P net path body ui
               = (Inl e, ui\<lparr>requests := requests ui @ [POST path (json_stringify P body)]\<rparr>)
             \<and> message P e = m"
proof (cases "net (POST path (json_stringify P body))")
  case (Rejected msg)
  with assms show ?thesis by (simp add: request_failure_def apiPost_def)
next
  case (Response ok t)
  show ?thesis
  proof (cases ok)
    case False
    with Response assms show ?thesis
      by (simp add: request_failure_def apiPost_def failed_response_throws_text)
  next
    case True
    with Response assms show ?thesis
      by (auto simp: request_failure_def apiPost_def parse_json_def split: sum.splits)
  qed
qed

lemma btnAll_failure:
  assumes "request_failure P net (GET (u ''/courses?limit=100&offset=0'')) = Some m"
  shows "btnAll_click P net ui
           = alert (ko_load_failed @ m)
               (ui\<lparr>requests := requests ui @ [GET (u ''/courses?limit=100&offset=0'')]\<rparr>)"
proof -
  from apiGet_failure [OF assms, of ui] obtain e where
    "apiGet P net (u ''/courses?limit=100&offset=0'') ui
       = (Inl e, ui\<lparr>requests := requests ui @ [GET (u ''/courses?limit=100&offset=0'')]\<rparr>)"
    and "message P e = m" by blast
  then show ?thesis by (simp add: btnAll_click_def catch_def seq_def)
qed

lemma btnSearch_failure:
  assumes "trim (q_value ui) \<noteq> []"
    and "encodeURIComponent P (trim (q_value ui)) = Inr q"
    and "request_failure P net (GET (u ''/search?q='' @ q @ u ''&limit=100&offset=0'')) = Some m"
  shows "btnSearch_click P net ui
           = alert (ko_search_failed @ m)
               (ui\<lparr>requests := requests ui
                      @ [GET (u ''/search?q='' @ q @ u ''&limit=100&offset=0'')]\<rparr>)"
proof -
  from apiGet_failure [OF assms(3), of ui] obtain e where
    "apiGet P net (u ''/search?q='' @ q @ u ''&limit=100&offset=0'') ui
       = (Inl e, ui\<lparr>requests := requests ui
                      @ [GET (u ''/search?q='' @ q @ u ''&limit=100&offset=0'')]\<rparr>)"
    and "message P e = m" by blast
  with assms(1,2) show ?thesis
    by (simp add: btnSearch_click_def catch_def seq_def compute_def uri_component_def Let_def)
qed

lemma btnSchedule_failure:
  assumes "request_failure P net
             (POST (u ''/schedule'') (json_stringify P (schedule_payload P ui))) = Some m"
  shows "btnSchedule_click P net ui
           = alert (ko_schedule_failed @ m)
               (ui\<lparr>requests := requests ui
                      @ [POST (u ''/schedule'') (json_stringify P (schedule_payload P ui))]\<rparr>)"
proof -
  from apiPost_failure [OF assms, of ui] obtain e where
    "apiPost P net (u ''/schedule'') (schedule_payload P ui) ui
       = (Inl e, ui\<lparr>requests := requests ui
                      @ [POST (u ''/schedule'') (json_stringify P (schedule_payload P ui))]\<rparr>)"
    and "message P e = m" by blast
  then show ?thesis by (simp add: btnSchedule_click_def catch_def seq_def)
qed

lemma loadAll_rejected:
  "net (GET (u ''/courses?limit=100'')) = Rejected m \<Longrightarrow>
   loadAll P net ui = (Inl (Raised m), ui\<lparr>fetches := fetches ui @ [GET (u ''/courses?limit=100'')]\<rparr>)"
  by (simp add: loadAll_def seq_def fetch_json_def)

lemma loadAll_malformed:
  "net (GET (u ''/courses?limit=100'')) = Response ok txt \<Longrightarrow> json_parse P txt = Inl m \<Longrightarrow>
   loadAll P net ui = (Inl (Raised m), ui\<lparr>fetches := fetches ui @ [GET (u ''/courses?limit=100'')]\<rparr>)"
  by (simp add: loadAll_def seq_def fetch_json_def parse_json_def)

lemma fetches_render_rows: "fetches (snd (render_rows P cols rs ui)) = fetches ui"
  by (induction rs arbitrary: ui) (simp_all split: sum.splits)

lemma fetches_render: "fetches (snd (render P rows ui)) = fetches ui"
  unfolding render_def
  by (simp add: seq_keeps compute_keeps assign_def fetches_render_rows)

lemma fetch_json_page: "snd (fetch_json P net url ui) = ui\<lparr>fetches := fetches ui @ [GET url]\<rparr>"
  by (simp add: fetch_json_def Let_def split: fetch_result.splits)

lemma fetches_loadAll:
  "fetches (snd (loadAll P net ui)) = fetches ui @ [GET (u ''/courses?limit=100'')]"
  unfolding loadAll_def
  by (simp add: seq_keeps compute_keeps assign_def fetches_render fetch_json_page)

lemma fetches_doSearch:
  "fetches (snd (doSearch P net ui))
     = (if trim (q_text ui) = [] then fetches ui @ [GET (u ''/courses?limit=100'')]
        else (case encodeURIComponent P (trim (q_text ui)) of
                Inl m \<Rightarrow> fetches ui
              | Inr q \<Rightarrow> fetches ui @ [GET (u ''/search?q='' @ q @ u ''&limit=100'')]))"
proof (cases "trim (q_text ui) = []")
  case True
  then show ?thesis by (simp add: doSearch_def fetches_loadAll)
next
  case False
  show ?thesis
  proof (cases "encodeURIComponent P (trim (q_text ui))")
    case (Inl m)
    with False show ?thesis
      by (simp add: doSearch_def Let_def seq_def compute_def uri_component_def)
  next
    case (Inr q)
    have "fetches (snd (seq (fetch_json P net (u ''/search?q='' @ q @ u ''&limit=100'')) (\<lambda>data.
        seq (compute (bind (get P data (u ''total'')) (to_string P))) (\<lambda>n.
        seq (assign (\<lambda>ui. ui\<lparr>meta := ko_found @ n @ ko_items\<rparr>)) (\<lambda>_.
        seq (compute (get P data (u ''results''))) (\<lambda>results.
        render P results)))) ui))
      = fetches ui @ [GET (u ''/search?q='' @ q @ u ''&limit=100'')]"
      by (simp add: seq_keeps compute_keeps assign_def fetches_render fetch_json_page)
    with False Inr show ?thesis
      by (simp add: doSearch_def Let_def uri_component_def seq_compute_Inr)
  qed
qed

lemma requests_btnSearch:
  "requests (btnSearch_click P net ui)
     = (if trim (q_value ui) = [] then requests ui
        else (case encodeURIComponent P (trim (q_value ui)) of
                Inl m \<Rightarrow> requests ui
              | Inr q \<Rightarrow> requests ui @ [GET (u ''/search?q='' @ q @ u ''&limit=100&offset=0'')]))"
proof (cases "trim (q_value ui) = []")
  case True
  then show ?thesis by (simp add: btnSearch_click_def requests_alert)
next
  case False
  show ?thesis
  proof (cases "encodeURIComponent P (trim (q_value ui))")
    case (Inl m)
    with False show ?thesis
      by (simp add: btnSearch_click_def Let_def catch_def seq_def compute_def uri_component_def
            requests_alert)
  next
    case (Inr q)
    have "requests (catch
          (seq (apiGet P net (u ''/search?q='' @ q @ u ''&limit=100&offset=0'')) (\<lambda>data.
           seq (compute (get P data (u ''results''))) (\<lambda>results.
           seq (compute (get P data (u ''total''))) (\<lambda>total'.
           renderCourses P results (default_null total')))))
          (\<lambda>e. alert (ko_search_failed @ message P e)) ui)
      = requests ui @ [GET (u ''/search?q='' @ q @ u ''&limit=100&offset=0'')]"
      by (simp add: catch_keeps requests_alert seq_keeps compute_keeps requests_renderCourses
            apiGet_page)
    with False Inr show ?thesis
      by (simp add: btnSearch_click_def Let_def uri_component_def seq_compute_Inr)
  qed
qed

lemma query_names_second: "query_names (u ''/courses?limit=100&offset=0'') = [u ''limit'', u ''offset'']"
  by (simp add: query_names_def u_def)

lemma query_names_first: "query_names (u ''/courses?limit=100'') = [u ''limit'']"
  by (simp add: query_names_def u_def)

lemma keyword_page_keyword: "trim (q_value keyword_page) = u ''AI''"
  by (simp add: keyword_page_def blank_page_def trim_def is_space_def u_def)

lemma sample_encode_keyword: "encodeURIComponent sample_platform (u ''AI'') = Inr (u ''AI'')"
  by (simp add: sample_platform_def u_def unreserved_def)

text \<open>
  C2, as the claim states it, fails on the first script: with the network down,
  \<^verbatim>\<open>loadAll\<close> ends with the rejection of \<^verbatim>\<open>fetch\<close> as its own outcome. Nothing catches it
  and the page shows nothing; the script has no \<^verbatim>\<open>try\<close> and no \<^verbatim>\<open>alert\<close>.
\<close>

theorem first_script_does_not_catch_failures:
  "loadAll sample_platform offline_net blank_app_page
     = (Inl (Raised (u ''Failed to fetch'')),
        blank_app_page\<lparr>fetches := [GET (u ''/courses?limit=100'')]\<rparr>)"
  by (simp add: loadAll_rejected offline_net_def) (simp add: blank_app_page_def)

text \<open>
  C2, amended. In the second script every failure of a request (a rejected \<^verbatim>\<open>fetch\<close>, a
  status outside 200 to 299, a body that is not JSON) is caught by the handler that issued
  it: the handler ends with one alert, its own prefix followed by the message of the
  failure, and with that one request issued and no other. In the first script nothing is
  caught: a rejected \<^verbatim>\<open>fetch\<close> or a body that is not JSON is the outcome of \<^verbatim>\<open>loadAll\<close>,
  after its one request.
\<close>

theorem second_script_alerts_every_request_failure:
  "(request_failure P net (GET (u ''/courses?limit=100&offset=0'')) = Some m \<longrightarrow>
      btnAll_click P net ui
        = alert (ko_load_failed @ m)
            (ui\<lparr>requests := requests ui @ [GET (u ''/courses?limit=100&offset=0'')]\<rparr>))
   \<and> (trim (q_value ui) \<noteq> [] \<and> encodeURIComponent P (trim (q_value ui)) = Inr q
        \<and> request_failure P net (GET (u ''/search?q='' @ q @ u ''&limit=100&offset=0'')) = Some m
      \<longrightarrow>
      btnSearch_click P net ui
        = alert (ko_search_failed @ m)
            (ui\<lparr>requests := requests ui
                   @ [GET (u ''/search?q='' @ q @ u ''&limit=100&offset=0'')]\<rparr>))
   \<and> (request_failure P net
          (POST (u ''/schedule'') (json_stringify P (schedule_payload P ui))) = Some m \<longrightarrow>
      btnSchedule_click P net ui
        = alert (ko_schedule_failed @ m)
            (ui\<lparr>requests := requests ui
                   @ [POST (u ''/schedule'') (json_stringify P (schedule_payload P ui))]\<rparr>))
   \<and> (net (GET (u ''/courses?limit=100'')) = Rejected m \<longrightarrow>
      loadAll P net app
        = (Inl (Raised m), app\<lparr>fetches := fetches app @ [GET (u ''/courses?limit=100'')]\<rparr>))
   \<and> (net (GET (u ''/courses?limit=100'')) = Response ok body \<and> json_parse P body = Inl m
      \<longrightarrow>
      loadAll P net app
        = (Inl (Raised m), app\<lparr>fetches := fetches app @ [GET (u ''/courses?limit=100'')]\<rparr>))"
  by (intro conjI impI; (elim conjE)?)
     (erule btnAll_failure, erule (2) btnSearch_failure, erule btnSchedule_failure,
      erule loadAll_rejected, erule (1) loadAll_malformed)

theorem second_script_alerts_every_request_failure_witness:
  "btnAll_click sample_platform not_found_net blank_page
     = alert (ko_load_failed @ not_found_body)
         (blank_page\<lparr>requests := [GET (u ''/courses?limit=100&offset=0'')]\<rparr>)
   \<and> btnSearch_click sample_platform offline_net keyword_page
     = alert (ko_search_failed @ u ''Failed to fetch'')
         (keyword_page\<lparr>requests := [GET (u ''/search?q=AI&limit=100&offset=0'')]\<rparr>)
   \<and> btnSchedule_click sample_platform html_net blank_page
     = alert (ko_schedule_failed @ u ''Unexpected token'')
         (blank_page\<lparr>requests :=
            [POST (u ''/schedule'')
               (json_stringify sample_platform (schedule_payload sample_platform blank_page))]\<rparr>)
   \<and> loadAll sample_platform html_net blank_app_page
     = (Inl (Raised (u ''Unexpected token'')),
        blank_app_page\<lparr>fetches := [GET (u ''/courses?limit=100'')]\<rparr>)"
proof -
  have not_found:
    "request_failure sample_platform not_found_net (GET (u ''/courses?limit=100&offset=0''))
       = Some not_found_body"
    by (simp add: request_failure_def not_found_net_def)
  have offline:
    "trim (q_value keyword_page) \<noteq> []
     \<and> encodeURIComponent sample_platform (trim (q_value keyword_page)) = Inr (u ''AI'')
     \<and> request_failure sample_platform offline_net
           (GET (u ''/search?q='' @ u ''AI'' @ u ''&limit=100&offset=0''))
         = Some (u ''Failed to fetch'')"
    by (simp add: keyword_page_keyword sample_encode_keyword request_failure_def offline_net_def)
  have malformed: "json_parse sample_platform (u ''<html>'') = Inl (u ''Unexpected token'')"
    by (simp add: sample_platform_def sample_documents_def)
  then have html:
    "request_failure sample_platform html_net
       (POST (u ''/schedule'')
          (json_stringify sample_platform (schedule_payload sample_platform blank_page)))
       = Some (u ''Unexpected token'')"
    by (simp add: request_failure_def html_net_def)
  have html': "html_net (GET (u ''/courses?limit=100'')) = Response True (u ''<html>'')
     \<and> json_parse sample_platform (u ''<html>'') = Inl (u ''Unexpected token'')"
    by (simp add: malformed html_net_def)
  from second_script_alerts_every_request_failure
         [of sample_platform not_found_net not_found_body blank_page]
       not_found
  have 1: "btnAll_click sample_platform not_found_net blank_page
     = alert (ko_load_failed @ not_found_body)
         (blank_page\<lparr>requests := requests blank_page
                          @ [GET (u ''/courses?limit=100&offset=0'')]\<rparr>)"
    by blast
  from second_script_alerts_every_request_failure
         [of sample_platform offline_net "u ''Failed to fetch''" keyword_page "u ''AI''"]
       offline
  have 2: "btnSearch_click sample_platform offline_net keyword_page
     = alert (ko_search_failed @ u ''Failed to fetch'')
         (keyword_page\<lparr>requests := requests keyword_page
            @ [GET (u ''/search?q='' @ u ''AI'' @ u ''&limit=100&offset=0'')]\<rparr>)"
    by blast
  from second_script_alerts_every_request_failure
         [of sample_platform html_net "u ''Unexpected token''" blank_page _ blank_app_page True
             "u ''<html>''"]
       html html'
  have 3: "btnSchedule_click sample_platform html_net blank_page
     = alert (ko_schedule_failed @ u ''Unexpected token'')
         (blank_page\<lparr>requests := requests blank_page @
            [POST (u ''/schedule'')
               (json_stringify sample_platform (schedule_payload sample_platform blank_page))]\<rparr>)"
    and 4: "loadAll sample_platform html_net blank_app_page
     = (Inl (Raised (u ''Unexpected token'')),
        blank_app_page\<lparr>fetches := fetches blank_app_page @ [GET (u ''/courses?limit=100'')]\<rparr>)"
    by blast+
  have "requests blank_page = []" "requests keyword_page = []" "fetches blank_app_page = []"
    by (simp_all add: blank_page_def keyword_page_def blank_app_page_def)
  moreover have "u ''/search?q='' @ u ''AI'' @ u ''&limit=100&offset=0''
      = u ''/search?q=AI&limit=100&offset=0''"
    by (simp add: u_def)
  ultimately show ?thesis
    using 1 2 3 4 by simp
qed

section \<open>The requests of each action\<close>

text \<open>
  C6, as the claim states it, fails on the first script: the request \<^verbatim>\<open>loadAll\<close> sends to
  \<^verbatim>\<open>/courses\<close> has a \<^verbatim>\<open>limit\<close> parameter and no \<^verbatim>\<open>offset\<close> parameter.
\<close>

theorem first_script_courses_request_has_no_offset:
  "fetches (snd (loadAll sample_platform offline_net blank_app_page))
     = [GET (u ''/courses?limit=100'')]
   \<and> u ''offset'' \<notin> set (query_names (u ''/courses?limit=100''))"
  by (simp add: fetches_loadAll query_names_first) (simp add: blank_app_page_def)

text \<open>
  C6, amended. The request the second script sends to \<^verbatim>\<open>/courses\<close> (the load-all button)
  carries the query parameters \<^verbatim>\<open>limit\<close> and \<^verbatim>\<open>offset\<close>; the one the first script sends
  (\<^verbatim>\<open>loadAll\<close>) carries \<^verbatim>\<open>limit\<close> only.
\<close>

theorem courses_request_parameters:
  "requests (btnAll_click P net ui) = requests ui @ [GET (u ''/courses?limit=100&offset=0'')]
   \<and> query_names (u ''/courses?limit=100&offset=0'') = [u ''limit'', u ''offset'']
   \<and> fetches (snd (loadAll P net app)) = fetches app @ [GET (u ''/courses?limit=100'')]
   \<and> query_names (u ''/courses?limit=100'') = [u ''limit'']"
  by (simp add: requests_btnAll fetches_loadAll query_names_second query_names_first)

text \<open>
  C8, as the claim states it, fails on the search button of the second script: with an empty
  keyword the click sends no request and shows the alert that asks for a keyword.
\<close>

theorem blank_search_sends_no_request:
  "requests (btnSearch_click sample_platform offline_net blank_page) = []
   \<and> alerts (btnSearch_click sample_platform offline_net blank_page) = [ko_enter_keyword]"
  by (simp add: btnSearch_click_def alert_def blank_page_def trim_def)

text \<open>
  C8, amended. A click on the load-all button or on the schedule button sends exactly one
  request. A click on the search button of the second script sends exactly one request
  when the keyword is not empty after trimming and \<^verbatim>\<open>encodeURIComponent\<close> accepts it, and
  none otherwise. In the first script \<^verbatim>\<open>loadAll\<close> sends exactly one request, and
  \<^verbatim>\<open>doSearch\<close> sends exactly one, to \<^verbatim>\<open>/courses\<close> when the query is empty after trimming
  and to \<^verbatim>\<open>/search\<close> otherwise, unless \<^verbatim>\<open>encodeURIComponent\<close> rejects the query.
\<close>

theorem requests_per_click:
  "requests (btnAll_click P net ui) = requests ui @ [GET (u ''/courses?limit=100&offset=0'')]
   \<and> requests (btnSchedule_click P net ui)
     = requests ui @ [POST (u ''/schedule'') (json_stringify P (schedule_payload P ui))]
   \<and> requests (btnSearch_click P net ui)
     = (if trim (q_value ui) = [] then requests ui
        else (case encodeURIComponent P (trim (q_value ui)) of
                Inl m \<Rightarrow> requests ui
              | Inr q \<Rightarrow> requests ui @ [GET (u ''/search?q='' @ q @ u ''&limit=100&offset=0'')]))
   \<and> fetches (snd (loadAll P net app)) = fetches app @ [GET (u ''/courses?limit=100'')]
   \<and> fetches (snd (doSearch P net app))
     = (if trim (q_text app) = [] then fetches app @ [GET (u ''/courses?limit=100'')]
        else (case encodeURIComponent P (trim (q_text app)) of
                Inl m \<Rightarrow> fetches app
              | Inr q \<Rightarrow> fetches app @ [GET (u ''/search?q='' @ q @ u ''&limit=100'')]))"
  using requests_btnAll requests_btnSchedule requests_btnSearch fetches_loadAll fetches_doSearch
  by simp

theorem requests_per_click_witness:
  "requests (btnSearch_click sample_platform offline_net keyword_page)
     = [GET (u ''/search?q=AI&limit=100&offset=0'')]"
  using requests_per_click [of sample_platform offline_net keyword_page]
  by (simp add: keyword_page_keyword sample_encode_keyword)
     (simp add: keyword_page_def blank_page_def u_def)

section \<open>Tables\<close>

lemma to_string_printable:
  "(\<exists>s. to_string P v = Inr s) \<longleftrightarrow> printable v"
  "(\<exists>ss. elements_to_strings P xs = Inr ss) \<longleftrightarrow> printable_elements xs"
proof (induction P v and P xs rule: to_string_elements_to_strings.induct)
  case (11 P x xs)
  then show ?case
    by (cases "nullish x") (auto split: sum.splits)
qed (auto split: sum.splits)

lemma printable_inherited: "printable (object_prototype_get c)"
  by (simp add: object_prototype_get_def)

lemma coalesce_row:
  assumes "printable (cell_value kvs c)"
  shows "coalesce P (JObj kvs) c [] = Inr (text_of P (cell_value kvs c))"
proof (cases "nullish (cell_value kvs c)")
  case True
  then show ?thesis
    by (simp add: coalesce_def bind_def text_of_def cell_value_def)
next
  case False
  from assms obtain s
    where "to_string P (cell_value kvs c) = Inr s"
    using to_string_printable(1) by blast
  with False show ?thesis
    by (simp add: coalesce_def bind_def text_of_def cell_value_def)
qed

lemma traverse_map:
  "(\<And>x. x \<in> set xs \<Longrightarrow> f x = Inr (g x)) \<Longrightarrow> traverse f xs = Inr (map g xs)"
  by (induction xs) (simp_all add: bind_def)

lemma table_row_object:
  "printable_cells cols kvs \<Longrightarrow> table_row P cols (JObj kvs) = Inr (row_element P cols kvs)"
  by (simp add: table_row_def row_element_def table_cell_def coalesce_row bind_def
        printable_cells_def list_all_iff
        traverse_map [where g = "\<lambda>c. u ''<td>'' @ text_of P (cell_value kvs c) @ u ''</td>''"])

lemma traverse_rows:
  "list_all (printable_cells cols) rows \<Longrightarrow>
   traverse (table_row P cols) (map JObj rows) = Inr (map (row_element P cols) rows)"
  by (induction rows) (simp_all add: bind_def table_row_object)

lemma render_rows_objects:
  "list_all (printable_cells cols) rows \<Longrightarrow>
   render_rows P cols (map JObj rows) ui
     = (Inr (), ui\<lparr>tbody := tbody ui @ map (row_element P cols) rows\<rparr>)"
  by (induction rows arbitrary: ui) (simp_all add: table_row_object)

lemma dec_0: "dec 0 = u ''0''"
  by (simp add: dec.simps u_def)

lemma array_index_0: "0 < n \<Longrightarrow> array_index (u ''0'') n = Some 0"
  by (simp add: array_index_def upt_conv_Cons dec_0 del: upt_Suc)

lemma header_markup_not_empty: "header_markup cols \<noteq> []"
  by (simp add: header_markup_def u_def)

lemma render_objects:
  assumes "rows \<noteq> []" and "list_all (printable_cells (map fst (hd rows))) rows"
  shows "render P (JArr (map JObj rows)) ui
           = (Inr (), ui\<lparr>thead := [Markup (header_markup (map fst (hd rows)))],
                           tbody := map (row_element P (map fst (hd rows))) rows\<rparr>)"
proof -
  from assms(1) obtain kvs rest where rows: "rows = kvs # rest" by (cases rows) auto
  have first: "get P (JArr (map JObj rows)) (u ''0'') = Inr (JObj kvs)"
    by (simp add: rows array_index_0)
  have len: "get P (JArr (map JObj rows)) (u ''length'') = Inr (JNum (Fin (of_nat (length rows))))"
    by simp
  from assms(2) have ok: "printable_cells (map fst kvs) kvs"
    "list_all (printable_cells (map fst kvs)) rest"
    by (simp_all add: rows)
  show ?thesis
    by (simp add: render_def seq_def assign_def compute_def bind_def innerHTML_def
          header_markup_not_empty rows array_index_0 table_row_object [OF ok(1)]
          render_rows_objects [OF ok(2)])
qed

lemma courses_table_objects:
  assumes "rows \<noteq> []" and "list_all (printable_cells (map fst (hd rows))) rows"
  shows "courses_table P (JArr (map JObj rows)) = Inr (table_element P rows)"
proof -
  from assms(1) obtain kvs rest where rows: "rows = kvs # rest" by (cases rows) auto
  from assms(2) have "list_all (printable_cells (map fst kvs)) rows"
    by (simp add: rows)
  from traverse_rows [OF this, of P]
  have "traverse (table_row P (map fst kvs)) (JObj kvs # map JObj rest)
          = Inr (map (row_element P (map fst kvs)) (kvs # rest))"
    by (simp add: rows)
  then show ?thesis
    by (simp add: courses_table_def bind_def rows array_index_0 table_element_def innerHTML_def
          header_markup_not_empty del: traverse.simps)
qed

lemma renderCourses_objects:
  assumes "rows \<noteq> []" and "list_all (printable_cells (map fst (hd rows))) rows"
    and "courses_info P (JArr (map JObj rows)) t = Inr info"
  shows "renderCourses P (JArr (map JObj rows)) t pg
           = (Inr (), pg\<lparr>coursesInfo := info, coursesWrap := [table_element P rows]\<rparr>)"
  using assms(1)
  by (simp add: renderCourses_def seq_def assign_def compute_def assms(3) innerHTML_def
        courses_table_objects [OF assms(1,2)])

lemma sample_rows_ok:
  "sample_rows \<noteq> [] \<and> list_all (printable_cells (map fst (hd sample_rows))) sample_rows"
  by (simp add: sample_rows_def printable_cells_def cell_value_def object_prototype_get_def
        object_prototype_functions_def)

lemma object_prototype_get_undefined:
  "object_prototype_get c = JUndefined \<longleftrightarrow> c \<notin> set inherited_names"
  by (auto simp: object_prototype_get_def inherited_names_def)

text \<open>
  C3, as the claim states it, fails on a list of one row object whose cell holds an object
  with an own \<^verbatim>\<open>toString\<close> property: converting the cell throws, the first script has set
  the header and appended no row, and the second script has set the caption and attached no
  table.
\<close>

theorem unprintable_cell_stops_rendering:
  "render sample_platform unprintable_rows blank_app_page
     = (Inl (TypeError NotPrimitive),
        blank_app_page\<lparr>thead := [Markup (u ''<tr><th>a</th></tr>'')], tbody := []\<rparr>)
   \<and> renderCourses sample_platform unprintable_rows JNull blank_page
     = (Inl (TypeError NotPrimitive),
        blank_page\<lparr>coursesInfo := ko_total @ u ''1'' @ ko_items, coursesWrap := []\<rparr>)"
proof (intro conjI)
  have cell: "table_row sample_platform [u ''a''] (JObj [(u ''a'', JObj [(u ''toString'', JNum (Fin 1))])])
     = Inl (TypeError NotPrimitive)"
    by (simp add: table_row_def table_cell_def coalesce_def bind_def)
  show "render sample_platform unprintable_rows blank_app_page
     = (Inl (TypeError NotPrimitive),
        blank_app_page\<lparr>thead := [Markup (u ''<tr><th>a</th></tr>'')], tbody := []\<rparr>)"
    by (simp add: render_def unprintable_rows_def seq_def assign_def compute_def bind_def
          array_index_0 cell innerHTML_def header_markup_not_empty)
       (simp add: header_markup_def u_def)
  show "renderCourses sample_platform unprintable_rows JNull blank_page
     = (Inl (TypeError NotPrimitive),
        blank_page\<lparr>coursesInfo := ko_total @ u ''1'' @ ko_items, coursesWrap := []\<rparr>)"
    by (simp add: renderCourses_def unprintable_rows_def seq_def assign_def compute_def bind_def
          courses_info_def courses_table_def array_index_0 cell innerHTML_def)
       (simp add: sample_platform_def dec.simps u_def blank_page_def)
qed

text \<open>
  C3, amended. For every non-empty list of row objects in which every cell (what a row
  answers for a key of the first item) converts to a string, rendering produces exactly one
  table row per item, and the columns of the table are the keys of the first item of the
  list, in that order: in the first script the header and the rows of the table of the page,
  in the second script the one table attached to the container, under a caption that counts
  the items or shows the count passed.
\<close>

theorem rows_and_columns_of_printable_objects:
  assumes "rows \<noteq> []" and "list_all (printable_cells (map fst (hd rows))) rows"
  shows "render P (JArr (map JObj rows)) ui
           = (Inr (), ui\<lparr>thead := [Markup (header_markup (map fst (hd rows)))],
                           tbody := map (row_element P (map fst (hd rows))) rows\<rparr>)
       \<and> length (tbody (snd (render P (JArr (map JObj rows)) ui))) = length rows
       \<and> renderCourses P (JArr (map JObj rows)) JNull pg
           = (Inr (), pg\<lparr>coursesInfo :=
                              ko_total @ num_to_string P (Fin (of_nat (length rows))) @ ko_items,
                           coursesWrap := [table_element P rows]\<rparr>)
       \<and> renderCourses P (JArr (map JObj rows)) (JNum n) pg
           = (Inr (), pg\<lparr>coursesInfo := ko_search_result @ num_to_string P n @ ko_items,
                           coursesWrap := [table_element P rows]\<rparr>)"
proof -
  have "courses_info P (JArr (map JObj rows)) JNull
          = Inr (ko_total @ num_to_string P (Fin (of_nat (length rows))) @ ko_items)"
    by (simp add: courses_info_def bind_def)
  moreover have "courses_info P (JArr (map JObj rows)) (JNum n)
          = Inr (ko_search_result @ num_to_string P n @ ko_items)"
    by (simp add: courses_info_def bind_def)
  ultimately show ?thesis
    by (simp add: render_objects [OF assms] renderCourses_objects [OF assms])
qed

theorem rows_and_columns_of_printable_objects_witness:
  "render sample_platform (JArr (map JObj sample_rows)) blank_app_page
     = (Inr (), blank_app_page
          \<lparr>thead := [Markup (u ''<tr><th>id</th><th>name</th></tr>'')],
            tbody := [Element ''tr'' [Markup (u ''<td>1</td><td>AI</td>'')],
                      Element ''tr'' [Markup (u ''<td>2</td><td></td>'')]]\<rparr>)
   \<and> renderCourses sample_platform (JArr (map JObj sample_rows)) JNull blank_page
     = (Inr (), blank_page
          \<lparr>coursesInfo := ko_total @ u ''2'' @ ko_items,
            coursesWrap :=
              [Element ''table''
                 [Element ''thead'' [Markup (u ''<tr><th>id</th><th>name</th></tr>'')],
                  Element ''tbody''
                    [Element ''tr'' [Markup (u ''<td>1</td><td>AI</td>'')],
                     Element ''tr'' [Markup (u ''<td>2</td><td></td>'')]]]]\<rparr>)"
proof -
  have header: "header_markup (map fst (hd sample_rows)) = u ''<tr><th>id</th><th>name</th></tr>''"
    by (simp add: sample_rows_def header_markup_def u_def)
  have rows: "map (row_element sample_platform (map fst (hd sample_rows))) sample_rows
      = [Element ''tr'' [Markup (u ''<td>1</td><td>AI</td>'')],
         Element ''tr'' [Markup (u ''<td>2</td><td></td>'')]]"
    by (simp add: sample_rows_def row_element_def text_of_def cell_value_def innerHTML_def
          object_prototype_get_def object_prototype_functions_def sample_platform_def dec.simps
          u_def)
  have count: "num_to_string sample_platform (Fin (of_nat (length sample_rows))) = u ''2''"
    by (simp add: sample_rows_def sample_platform_def dec.simps u_def)
  from rows_and_columns_of_printable_objects
         [of sample_rows sample_platform blank_app_page blank_page]
       sample_rows_ok
  show ?thesis
    by (simp add: header rows count table_element_def)
qed

text \<open>
  C10, as the claim states it, fails on a key of the first item that the row lacks when the
  key names a property every object inherits: the second row below has no \<^verbatim>\<open>constructor\<close>
  property of its own and its cell shows the text of the inherited function.
\<close>

theorem inherited_property_renders_in_missing_cell:
  "render sample_platform constructor_rows blank_app_page
     = (Inr (), blank_app_page
          \<lparr>thead := [Markup (u ''<tr><th>constructor</th></tr>'')],
            tbody := [Element ''tr'' [Markup (u ''<td>Kim</td>'')],
                      Element ''tr''
                        [Markup (u ''<td>function Object() { [native code] }</td>'')]]\<rparr>)"
  by (simp add: render_def constructor_rows_def seq_def assign_def compute_def bind_def
        array_index_0 innerHTML_def header_markup_not_empty table_row_def table_cell_def
        coalesce_def object_prototype_get_def)
     (simp add: header_markup_def sample_platform_def u_def)

text \<open>
  C10, amended. A cell whose value is \<^verbatim>\<open>null\<close> or \<^verbatim>\<open>undefined\<close> is rendered as the empty
  string. A key that the row object lacks reads as \<^verbatim>\<open>undefined\<close>, and so renders as the
  empty string, unless it is one of the names inherited from \<^verbatim>\<open>Object.prototype\<close>; for
  these the cell holds the text of the inherited value.
\<close>

theorem nullish_cells_render_empty:
  "(get P row c = Inr v \<and> nullish v \<longrightarrow> table_cell P row c = Inr (u ''<td></td>''))
   \<and> (map_of kvs c = None \<and> c \<notin> set inherited_names \<longrightarrow>
        table_cell P (JObj kvs) c = Inr (u ''<td></td>''))
   \<and> (map_of kvs c = None \<and> c \<in> set inherited_names \<longrightarrow>
        (\<exists>s. to_string P (object_prototype_get c) = Inr s
              \<and> table_cell P (JObj kvs) c = Inr (u ''<td>'' @ s @ u ''</td>'')))"
proof (intro conjI impI)
  assume "get P row c = Inr v \<and> nullish v"
  then show "table_cell P row c = Inr (u ''<td></td>'')"
    by (simp add: table_cell_def coalesce_def bind_def u_def)
next
  assume "map_of kvs c = None \<and> c \<notin> set inherited_names"
  then have "get P (JObj kvs) c = Inr JUndefined"
    using object_prototype_get_undefined [of c] by simp
  then show "table_cell P (JObj kvs) c = Inr (u ''<td></td>'')"
    by (simp add: table_cell_def coalesce_def bind_def u_def)
next
  assume a: "map_of kvs c = None \<and> c \<in> set inherited_names"
  then have ne: "object_prototype_get c \<noteq> JUndefined"
    using object_prototype_get_undefined [of c] by simp
  then have "\<not> nullish (object_prototype_get c)"
    by (simp add: object_prototype_get_def split: if_splits)
  moreover obtain s where "to_string P (object_prototype_get c) = Inr s"
    using to_string_printable(1) printable_inherited by blast
  ultimately show "\<exists>s. to_string P (object_prototype_get c) = Inr s
              \<and> table_cell P (JObj kvs) c = Inr (u ''<td>'' @ s @ u ''</td>'')"
    using a by (simp add: table_cell_def coalesce_def bind_def)
qed

theorem nullish_cells_render_empty_witness:
  "table_cell sample_platform (JObj [(u ''name'', JNull)]) (u ''name'') = Inr (u ''<td></td>'')
   \<and> table_cell sample_platform (JObj [(u ''id'', JNum (Fin 2))]) (u ''name'')
     = Inr (u ''<td></td>'')"
proof -
  have "get sample_platform (JObj [(u ''name'', JNull)]) (u ''name'') = Inr JNull \<and> nullish JNull"
    by simp
  moreover have "map_of [(u ''id'', JNum (Fin 2))] (u ''name'') = None
      \<and> u ''name'' \<notin> set inherited_names"
    by (simp add: inherited_names_def object_prototype_functions_def)
  ultimately show ?thesis
    using nullish_cells_render_empty
            [of sample_platform "JObj [(u ''name'', JNull)]" "u ''name''" JNull
                "[(u ''id'', JNum (Fin 2))]"]
    by blast
qed

section \<open>Search\<close>

lemma seq_assign: "seq (assign f) g s = g () (f s)"
  by (simp add: seq_def assign_def)

lemma coursesInfo_alert: "coursesInfo (alert m ui) = coursesInfo ui"
  by (simp add: alert_def)

lemma coursesInfo_renderCourses_count:
  "coursesInfo (snd (renderCourses P l (JNum n) ui))
     = ko_search_result @ num_to_string P n @ ko_items"
proof -
  have info: "courses_info P l (JNum n) = Inr (ko_search_result @ num_to_string P n @ ko_items)"
    by (simp add: courses_info_def bind_def)
  show ?thesis
    unfolding renderCourses_def
    by (simp add: seq_assign info seq_compute_Inr)
       (simp add: seq_keeps compute_keeps assign_def)
qed

lemma meta_render_rows: "meta (snd (render_rows P cols rs ui)) = meta ui"
  by (induction rs arbitrary: ui) (simp_all split: sum.splits)

lemma meta_render: "meta (snd (render P rows ui)) = meta ui"
  unfolding render_def
  by (simp add: seq_keeps compute_keeps assign_def meta_render_rows)

lemma btnSearch_success:
  assumes "trim (q_value ui) \<noteq> []"
    and "encodeURIComponent P (trim (q_value ui)) = Inr q"
    and "net (GET (u ''/search?q='' @ q @ u ''&limit=100&offset=0'')) = Response True body"
    and "json_parse P body = Inr (JObj kvs)"
    and "map_of kvs (u ''results'') = Some results"
    and "map_of kvs (u ''total'') = Some (JNum n)"
  shows "btnSearch_click P net ui
           = catch (renderCourses P results (JNum n))
               (\<lambda>e. alert (ko_search_failed @ message P e))
               (ui\<lparr>requests := requests ui
                      @ [GET (u ''/search?q='' @ q @ u ''&limit=100&offset=0'')]\<rparr>)"
  using assms
  by (simp add: btnSearch_click_def Let_def uri_component_def seq_compute_Inr catch_def
        seq_def [of "apiGet _ _ _"] apiGet_def parse_json_def default_null_def)

lemma doSearch_success:
  assumes "trim (q_text app) \<noteq> []"
    and "encodeURIComponent P (trim (q_text app)) = Inr q"
    and "net (GET (u ''/search?q='' @ q @ u ''&limit=100'')) = Response ok body"
    and "json_parse P body = Inr (JObj kvs)"
    and "map_of kvs (u ''results'') = Some results"
    and "map_of kvs (u ''total'') = Some (JNum n)"
  shows "doSearch P net app
           = render P results
               (app\<lparr>fetches := fetches app @ [GET (u ''/search?q='' @ q @ u ''&limit=100'')],
                     meta := ko_found @ num_to_string P n @ ko_items\<rparr>)"
  using assms
  by (simp add: doSearch_def Let_def uri_component_def seq_compute_Inr seq_assign
        seq_def [of "fetch_json _ _ _"] fetch_json_def parse_json_def bind_def)

lemma courses_info_count:
  "courses_info P l (JNum n) = Inr (ko_search_result @ num_to_string P n @ ko_items)"
  by (simp add: courses_info_def bind_def)

lemma renderCourses_empty:
  "courses_info P (JArr []) t = Inr info \<Longrightarrow>
   renderCourses P (JArr []) t pg
     = (Inr (), pg\<lparr>coursesInfo := info, coursesWrap := [Markup no_result_markup]\<rparr>)"
  by (simp add: renderCourses_def effect_defs innerHTML_def no_result_markup_def)

lemma render_empty:
  "render P (JArr []) ui
     = (Inr (), ui\<lparr>thead := [Markup (u ''<tr><th>No data</th></tr>'')], tbody := []\<rparr>)"
  by (simp add: render_def effect_defs innerHTML_def)

lemma parse_unprintable_search_body:
  "json_parse sample_platform unprintable_search_body
     = Inr (JObj [(u ''results'', unprintable_rows), (u ''total'', JNum (Fin 1))])"
  by (simp add: sample_platform_def sample_documents_def unprintable_search_body_def
        unprintable_rows_def u_def)

lemma sample_one: "num_to_string sample_platform (Fin 1) = u ''1''"
  by (simp add: sample_platform_def dec.simps u_def)

lemma keyword_app_page_keyword: "trim (q_text keyword_app_page) = u ''AI''"
  by (simp add: keyword_app_page_def blank_app_page_def trim_def is_space_def u_def)

lemma unprintable_row_throws:
  "table_row P [u ''a''] (JObj [(u ''a'', JObj [(u ''toString'', JNum (Fin 1))])])
     = Inl (TypeError NotPrimitive)"
  by (simp add: table_row_def table_cell_def coalesce_def bind_def)

lemma renderCourses_unprintable:
  "renderCourses P unprintable_rows (JNum n) pg
     = (Inl (TypeError NotPrimitive),
        pg\<lparr>coursesWrap := [], coursesInfo := ko_search_result @ num_to_string P n @ ko_items\<rparr>)"
  by (simp add: renderCourses_def unprintable_rows_def seq_def assign_def compute_def bind_def
        courses_info_def courses_table_def array_index_0 unprintable_row_throws innerHTML_def)

lemma render_unprintable:
  "render P unprintable_rows ui
     = (Inl (TypeError NotPrimitive),
        ui\<lparr>thead := [Markup (header_markup [u ''a''])], tbody := []\<rparr>)"
  by (simp add: render_def unprintable_rows_def seq_def assign_def compute_def bind_def
        array_index_0 unprintable_row_throws innerHTML_def header_markup_not_empty)

text \<open>
  C7, as the claim states it, fails on a successful search response whose one result holds
  an object with an own \<^verbatim>\<open>toString\<close>: the body parses to \<^verbatim>\<open>results\<close> of one item and
  \<^verbatim>\<open>total\<close> 1, the count is shown, and no row of the results is rendered. The second script
  leaves its container empty and alerts the TypeError; the first script sets the header and
  ends with the TypeError, the table body empty.
\<close>

theorem unprintable_search_result_is_not_rendered:
  "json_parse sample_platform unprintable_search_body
     = Inr (JObj [(u ''results'', unprintable_rows), (u ''total'', JNum (Fin 1))])
   \<and> btnSearch_click sample_platform unprintable_search_net keyword_page
     = keyword_page
         \<lparr>requests := [GET (u ''/search?q=AI&limit=100&offset=0'')],
           coursesInfo := ko_search_result @ u ''1'' @ ko_items,
           coursesWrap := [],
           alerts := [ko_search_failed @ u ''Cannot convert object to primitive value'']\<rparr>
   \<and> doSearch sample_platform unprintable_search_net keyword_app_page
     = (Inl (TypeError NotPrimitive),
        keyword_app_page
          \<lparr>fetches := [GET (u ''/search?q=AI&limit=100'')],
            meta := ko_found @ u ''1'' @ ko_items,
            thead := [Markup (u ''<tr><th>a</th></tr>'')],
            tbody := []\<rparr>)"
proof (intro conjI)
  show "json_parse sample_platform unprintable_search_body
     = Inr (JObj [(u ''results'', unprintable_rows), (u ''total'', JNum (Fin 1))])"
    by (rule parse_unprintable_search_body)
  have url: "u ''/search?q='' @ u ''AI'' @ u ''&limit=100&offset=0''
      = u ''/search?q=AI&limit=100&offset=0''"
    and url': "u ''/search?q='' @ u ''AI'' @ u ''&limit=100'' = u ''/search?q=AI&limit=100''"
    by (simp_all add: u_def)
  have "btnSearch_click sample_platform unprintable_search_net keyword_page
      = catch (renderCourses sample_platform unprintable_rows (JNum (Fin 1)))
          (\<lambda>e. alert (ko_search_failed @ message sample_platform e))
          (keyword_page\<lparr>requests := requests keyword_page
              @ [GET (u ''/search?q='' @ u ''AI'' @ u ''&limit=100&offset=0'')]\<rparr>)"
    by (rule btnSearch_success [where kvs = "[(u ''results'', unprintable_rows),
                                              (u ''total'', JNum (Fin 1))]"
                                 and body = unprintable_search_body])
       (simp_all add: keyword_page_keyword sample_encode_keyword unprintable_search_net_def
          parse_unprintable_search_body)
  then show "btnSearch_click sample_platform unprintable_search_net keyword_page
     = keyword_page
         \<lparr>requests := [GET (u ''/search?q=AI&limit=100&offset=0'')],
           coursesInfo := ko_search_result @ u ''1'' @ ko_items,
           coursesWrap := [],
           alerts := [ko_search_failed @ u ''Cannot convert object to primitive value'']\<rparr>"
    by (simp add: catch_def renderCourses_unprintable alert_def sample_one url)
       (simp add: keyword_page_def blank_page_def sample_platform_def)
  have "doSearch sample_platform unprintable_search_net keyword_app_page
      = render sample_platform unprintable_rows
          (keyword_app_page\<lparr>fetches := fetches keyword_app_page
                @ [GET (u ''/search?q='' @ u ''AI'' @ u ''&limit=100'')],
              meta := ko_found @ num_to_string sample_platform (Fin 1) @ ko_items\<rparr>)"
    by (rule doSearch_success [where kvs = "[(u ''results'', unprintable_rows),
                                             (u ''total'', JNum (Fin 1))]"
                                and body = unprintable_search_body and ok = True])
       (simp_all add: keyword_app_page_keyword sample_encode_keyword unprintable_search_net_def
          parse_unprintable_search_body)
  then show "doSearch sample_platform unprintable_search_net keyword_app_page
     = (Inl (TypeError NotPrimitive),
        keyword_app_page
          \<lparr>fetches := [GET (u ''/search?q=AI&limit=100'')],
            meta := ko_found @ u ''1'' @ ko_items,
            thead := [Markup (u ''<tr><th>a</th></tr>'')],
            tbody := []\<rparr>)"
    by (simp add: render_unprintable sample_one url')
       (simp add: keyword_app_page_def blank_app_page_def header_markup_def u_def)
qed

text \<open>
  C7, amended. For every successful search response (a 2xx response whose body is a JSON
  object with a \<^verbatim>\<open>results\<close> array of row objects and a numeric \<^verbatim>\<open>total\<close>) in which every
  cell read converts to a string, the rows rendered into the table are exactly the results
  array, one row per item in order under the keys of the first item (the placeholder when the
  array is empty), and the displayed count is exactly \<^verbatim>\<open>total\<close>; no alert is shown and
  nothing else on the page changes but the one request recorded.
\<close>

theorem search_renders_printable_results_and_total:
  assumes "kw \<noteq> []"
    and "encodeURIComponent P kw = Inr q"
    and "json_parse P body = Inr (JObj kvs)"
    and "map_of kvs (u ''results'') = Some (JArr (map JObj rows))"
    and "map_of kvs (u ''total'') = Some (JNum n)"
    and "list_all (printable_cells (map fst (hd rows))) rows"
  shows "(trim (q_value ui) = kw
          \<and> net (GET (u ''/search?q='' @ q @ u ''&limit=100&offset=0'')) = Response True body
          \<longrightarrow>
          btnSearch_click P net ui
            = ui\<lparr>requests := requests ui
                     @ [GET (u ''/search?q='' @ q @ u ''&limit=100&offset=0'')],
                   coursesInfo := ko_search_result @ num_to_string P n @ ko_items,
                   coursesWrap := (if rows = [] then [Markup no_result_markup]
                                   else [table_element P rows])\<rparr>)
       \<and> (trim (q_text app) = kw
          \<and> net (GET (u ''/search?q='' @ q @ u ''&limit=100'')) = Response True body
          \<longrightarrow>
          doSearch P net app
            = (Inr (),
               app\<lparr>fetches := fetches app @ [GET (u ''/search?q='' @ q @ u ''&limit=100'')],
                     meta := ko_found @ num_to_string P n @ ko_items,
                     thead := (if rows = [] then [Markup (u ''<tr><th>No data</th></tr>'')]
                               else [Markup (header_markup (map fst (hd rows)))]),
                     tbody := map (row_element P (map fst (hd rows))) rows\<rparr>))"
proof (intro conjI impI; elim conjE)
  assume a: "trim (q_value ui) = kw"
    "net (GET (u ''/search?q='' @ q @ u ''&limit=100&offset=0'')) = Response True body"
  from a(1) assms(1,2) have "trim (q_value ui) \<noteq> []"
    "encodeURIComponent P (trim (q_value ui)) = Inr q" by simp_all
  from btnSearch_success [where net = net and ui = ui, OF this a(2) assms(3,4,5)]
  have click: "btnSearch_click P net ui
            = catch (renderCourses P (JArr (map JObj rows)) (JNum n))
                (\<lambda>e. alert (ko_search_failed @ message P e))
                (ui\<lparr>requests := requests ui
                       @ [GET (u ''/search?q='' @ q @ u ''&limit=100&offset=0'')]\<rparr>)" .
  show "btnSearch_click P net ui
            = ui\<lparr>requests := requests ui
                     @ [GET (u ''/search?q='' @ q @ u ''&limit=100&offset=0'')],
                   coursesInfo := ko_search_result @ num_to_string P n @ ko_items,
                   coursesWrap := (if rows = [] then [Markup no_result_markup]
                                   else [table_element P rows])\<rparr>"
  proof (cases "rows = []")
    case True
    then show ?thesis
      by (simp add: click catch_def renderCourses_empty [OF courses_info_count])
  next
    case False
    then show ?thesis
      by (simp add: click catch_def
            renderCourses_objects [OF False assms(6) courses_info_count])
  qed
next
  assume a: "trim (q_text app) = kw"
    "net (GET (u ''/search?q='' @ q @ u ''&limit=100'')) = Response True body"
  from a(1) assms(1,2) have "trim (q_text app) \<noteq> []"
    "encodeURIComponent P (trim (q_text app)) = Inr q" by simp_all
  from doSearch_success [where net = net and app = app, OF this a(2) assms(3,4,5)]
  have search: "doSearch P net app
            = render P (JArr (map JObj rows))
                (app\<lparr>fetches := fetches app @ [GET (u ''/search?q='' @ q @ u ''&limit=100'')],
                      meta := ko_found @ num_to_string P n @ ko_items\<rparr>)" .
  show "doSearch P net app
            = (Inr (),
               app\<lparr>fetches := fetches app @ [GET (u ''/search?q='' @ q @ u ''&limit=100'')],
                     meta := ko_found @ num_to_string P n @ ko_items,
                     thead := (if rows = [] then [Markup (u ''<tr><th>No data</th></tr>'')]
                               else [Markup (header_markup (map fst (hd rows)))]),
                     tbody := map (row_element P (map fst (hd rows))) rows\<rparr>)"
  proof (cases "rows = []")
    case True
    then show ?thesis by (simp add: search render_empty)
  next
    case False
    then show ?thesis by (simp add: search render_objects [OF False assms(6)])
  qed
qed

lemma parse_search_body: "json_parse sample_platform search_body = Inr (JObj search_response)"
  by (simp add: sample_platform_def sample_documents_def search_body_def search_response_def
        found_rows_def u_def)

lemma found_rows_ok:
  "found_rows \<noteq> [] \<and> list_all (printable_cells (map fst (hd found_rows))) found_rows"
  by (simp add: found_rows_def printable_cells_def cell_value_def)

lemma found_table:
  "table_element sample_platform found_rows
     = Element ''table''
         [Element ''thead'' [Markup (u ''<tr><th>id</th><th>name</th></tr>'')],
          Element ''tbody'' [Element ''tr'' [Markup (u ''<td>1</td><td>AI</td>'')]]]"
  by (simp add: table_element_def found_rows_def header_markup_def row_element_def text_of_def
        cell_value_def innerHTML_def sample_platform_def dec.simps u_def)

theorem search_renders_printable_results_and_total_witness:
  "btnSearch_click sample_platform search_net keyword_page
     = keyword_page
         \<lparr>requests := [GET (u ''/search?q=AI&limit=100&offset=0'')],
           coursesInfo := ko_search_result @ u ''1'' @ ko_items,
           coursesWrap :=
             [Element ''table''
                [Element ''thead'' [Markup (u ''<tr><th>id</th><th>name</th></tr>'')],
                 Element ''tbody'' [Element ''tr'' [Markup (u ''<td>1</td><td>AI</td>'')]]]]\<rparr>
   \<and> doSearch sample_platform search_net keyword_app_page
     = (Inr (),
        keyword_app_page
          \<lparr>fetches := [GET (u ''/search?q=AI&limit=100'')],
            meta := ko_found @ u ''1'' @ ko_items,
            thead := [Markup (u ''<tr><th>id</th><th>name</th></tr>'')],
            tbody := [Element ''tr'' [Markup (u ''<td>1</td><td>AI</td>'')]]\<rparr>)"
proof -
  have kw: "u ''AI'' \<noteq> ([] :: jsstring)" by simp
  have res: "map_of search_response (u ''results'') = Some (JArr (map JObj found_rows))"
    and tot: "map_of search_response (u ''total'') = Some (JNum (Fin 1))"
    by (simp_all add: search_response_def)
  have ok: "list_all (printable_cells (map fst (hd found_rows))) found_rows"
    and ne: "found_rows \<noteq> []"
    using found_rows_ok by simp_all
  note main = search_renders_printable_results_and_total
                [OF kw sample_encode_keyword parse_search_body res tot ok,
                   of keyword_page search_net keyword_app_page]
  have pre: "trim (q_value keyword_page) = u ''AI''
      \<and> search_net (GET (u ''/search?q='' @ u ''AI'' @ u ''&limit=100&offset=0''))
        = Response True search_body"
    and pre': "trim (q_text keyword_app_page) = u ''AI''
      \<and> search_net (GET (u ''/search?q='' @ u ''AI'' @ u ''&limit=100''))
        = Response True search_body"
    by (simp_all add: keyword_page_keyword keyword_app_page_keyword search_net_def)
  have click: "btnSearch_click sample_platform search_net keyword_page
      = keyword_page
          \<lparr>requests := requests keyword_page
              @ [GET (u ''/search?q='' @ u ''AI'' @ u ''&limit=100&offset=0'')],
            coursesInfo := ko_search_result @ num_to_string sample_platform (Fin 1) @ ko_items,
            coursesWrap := (if found_rows = [] then [Markup no_result_markup]
                            else [table_element sample_platform found_rows])\<rparr>"
    using main pre by blast
  have search: "doSearch sample_platform search_net keyword_app_page
      = (Inr (),
         keyword_app_page
           \<lparr>fetches := fetches keyword_app_page
               @ [GET (u ''/search?q='' @ u ''AI'' @ u ''&limit=100'')],
             meta := ko_found @ num_to_string sample_platform (Fin 1) @ ko_items,
             thead := (if found_rows = [] then [Markup (u ''<tr><th>No data</th></tr>'')]
                       else [Markup (header_markup (map fst (hd found_rows)))]),
             tbody := map (row_element sample_platform (map fst (hd found_rows))) found_rows\<rparr>)"
    using main pre' by blast
  have url: "u ''/search?q='' @ u ''AI'' @ u ''&limit=100&offset=0''
      = u ''/search?q=AI&limit=100&offset=0''"
    and url': "u ''/search?q='' @ u ''AI'' @ u ''&limit=100'' = u ''/search?q=AI&limit=100''"
    by (simp_all add: u_def)
  have empty: "requests keyword_page = []" "fetches keyword_app_page = []"
    by (simp_all add: keyword_page_def blank_page_def keyword_app_page_def blank_app_page_def)
  have header: "header_markup (map fst (hd found_rows)) = u ''<tr><th>id</th><th>name</th></tr>''"
    and rows: "map (row_element sample_platform (map fst (hd found_rows))) found_rows
      = [Element ''tr'' [Markup (u ''<td>1</td><td>AI</td>'')]]"
    using found_table by (simp_all add: table_element_def)
  show ?thesis
    by (simp only: click search ne if_False url url' empty append_Nil sample_one found_table
          header rows simp_thms)
qed

end
